theory Spec2Isabelle
  imports Complex_Main "HOL-Library.Word"
begin

unbundle bit_operations_syntax

section \<open>Machine types\<close>

type_synonym byte = "8 word"
type_synonym int32 = "32 word"
type_synonym int64 = "64 word"
type_synonym uint64 = "64 word"

text \<open>
  A \<open>float64\<close> that the code only copies from an envelope into a record is kept as its
  64 IEEE bits; its zero value is the all-zero pattern.
\<close>

type_synonym float64 = "64 word"

section \<open>Identifier rendering (\<open>uuidToHex\<close>)\<close>

text \<open>
  \<open>events.UUID\<close>: the two 64-bit halves of a 128-bit identifier. Both are required
  fields of the message, present in every identifier that is not nil.
\<close>

record UUID =
  Low :: uint64
  High :: uint64

text \<open>The digit table of \<open>encoding/hex\<close>.\<close>

definition hextable :: string where
  "hextable = ''0123456789abcdef''"

definition dashByte :: char where
  "dashByte = CHR ''-''"

text \<open>
  \<open>hex.Encode(dst, src)\<close>: two digits for each source byte, the high nibble first.
  The result is the sequence of bytes written to \<open>dst\<close>.
\<close>

fun hex_Encode :: "byte list \<Rightarrow> string" where
  "hex_Encode [] = []"
| "hex_Encode (v # vs) =
     hextable ! unat (drop_bit 4 v) # hextable ! unat (v AND 0x0f) # hex_Encode vs"

text \<open>
  \<open>binary.Write(buffer, binary.LittleEndian, v)\<close> for a 64-bit value appends its eight
  bytes, least significant first.
\<close>

definition PutUint64 :: "uint64 \<Rightarrow> byte list" where
  "PutUint64 v = map (\<lambda>i. ucast (drop_bit (8 * i) v)) [0..<8]"

text \<open>A slice expression \<open>b[lo:hi]\<close> and a write of \<open>src\<close> into a buffer at an offset.\<close>

definition subslice :: "'a list \<Rightarrow> nat \<Rightarrow> nat \<Rightarrow> 'a list" where
  "subslice b lo hi = take (hi - lo) (drop lo b)"

definition write_at :: "'a list \<Rightarrow> nat \<Rightarrow> 'a list \<Rightarrow> 'a list" where
  "write_at buf off src = take off buf @ src @ drop (off + length src) buf"

definition uuidToHex :: "UUID option \<Rightarrow> string" where
  "uuidToHex uuid =
     (case uuid of
        None \<Rightarrow> ''''
      | Some u \<Rightarrow>
          (let bufferBytes = PutUint64 (Low u) @ PutUint64 (High u);
               hexBuffer = replicate 36 (CHR 0x00);
               hexBuffer = write_at hexBuffer 0 (hex_Encode (subslice bufferBytes 0 4));
               hexBuffer = hexBuffer[8 := dashByte];
               hexBuffer = write_at hexBuffer 9 (hex_Encode (subslice bufferBytes 4 6));
               hexBuffer = hexBuffer[13 := dashByte];
               hexBuffer = write_at hexBuffer 14 (hex_Encode (subslice bufferBytes 6 8));
               hexBuffer = hexBuffer[18 := dashByte];
               hexBuffer = write_at hexBuffer 19 (hex_Encode (subslice bufferBytes 8 10));
               hexBuffer = hexBuffer[23 := dashByte];
               hexBuffer = write_at hexBuffer 24 (hex_Encode (drop 10 bufferBytes))
           in hexBuffer))"

section \<open>Decimal rendering\<close>

definition digit_char :: "nat \<Rightarrow> char" where
  "digit_char d = ''0123456789'' ! (d mod 10)"

text \<open>The decimal digits of a natural number, most significant first (\<open>0\<close> is \<open>"0"\<close>).\<close>

fun decimal :: "nat \<Rightarrow> string" where
  "decimal n = (if n < 10 then [digit_char n] else decimal (n div 10) @ [digit_char (n mod 10)])"

declare decimal.simps [simp del]

text \<open>\<open>strconv.Itoa\<close> and the verb \<open>%d\<close> of \<open>fmt\<close>.\<close>

definition Itoa :: "int \<Rightarrow> string" where
  "Itoa i = (if i < 0 then ''-'' @ decimal (nat (- i)) else decimal (nat i))"

section \<open>Timestamp conversion (\<open>nanoSecondsToSeconds\<close>)\<close>

text \<open>
  The arithmetic of \<open>nanoSecondsToSeconds\<close> is done on \<open>float64\<close>. A finite value of
  that type is \<open>mant * 2 ^ expo\<close> with a significand of at most 53 bits; every operation
  rounds its exact result to the nearest such value, a tie to the even significand.
  The values met here (at most \<open>2 ^ 63\<close> in magnitude, and no smaller than \<open>10 ^ -9\<close>
  unless zero) are far from the overflow and subnormal ranges, and the only zero is
  the positive one.
\<close>

datatype fval = Fval (mant: int) (expo: int)

definition fval_real :: "fval \<Rightarrow> real" where
  "fval_real v = of_int (mant v) * 2 powi (expo v)"

fun bit_length :: "nat \<Rightarrow> nat" where
  "bit_length n = (if n = 0 then 0 else Suc (bit_length (n div 2)))"

declare bit_length.simps [simp del]

text \<open>\<open>a / b\<close> rounded to the nearest natural number, a tie to the even one.\<close>

definition round_half_even :: "nat \<Rightarrow> nat \<Rightarrow> nat" where
  "round_half_even a b =
     (let q = a div b; r = a mod b
      in if 2 * r < b then q
         else if 2 * r > b then q + 1
         else if even q then q else q + 1)"

text \<open>The \<open>float64\<close> nearest to \<open>\<plusminus> a * 2 ^ e\<close>.\<close>

definition round_float64 :: "bool \<Rightarrow> nat \<Rightarrow> int \<Rightarrow> fval" where
  "round_float64 neg a e =
     (let k = bit_length a - 53;
          m = round_half_even a (2 ^ k)
      in Fval (if neg then - int m else int m) (e + int k))"

text \<open>The conversion \<open>float64(nanoseconds)\<close> of an \<open>int64\<close>.\<close>

definition float64_of_int64 :: "int64 \<Rightarrow> fval" where
  "float64_of_int64 n = round_float64 (sint n < 0) (nat \<bar>sint n\<bar>) 0"

text \<open>The product of two \<open>float64\<close> values.\<close>

definition float64_mul :: "fval \<Rightarrow> fval \<Rightarrow> fval" where
  "float64_mul x y =
     round_float64 ((mant x < 0) \<noteq> (mant y < 0)) (nat (\<bar>mant x\<bar> * \<bar>mant y\<bar>)) (expo x + expo y)"

text \<open>
  \<open>math.Pow(1000, -3)\<close>: the library computes \<open>1000 ^ 3\<close> exactly and returns its
  correctly rounded reciprocal, the \<open>float64\<close> nearest to \<open>10 ^ -9\<close>
  (\<open>0x3E112E0BE826D695\<close>).
\<close>

definition math_Pow_1000_neg3 :: fval where
  "math_Pow_1000_neg3 = Fval 4835703278458517 (- 82)"

text \<open>
  The verb \<open>%.3f\<close>: the exact value of the \<open>float64\<close>, rounded to the nearest
  multiple of \<open>1/1000\<close> (a tie to the even one), printed with its sign, its integer part
  and exactly three fractional digits. \<open>thousandths\<close> is the rounded magnitude in
  units of \<open>1/1000\<close>.
\<close>

definition thousandths :: "fval \<Rightarrow> nat" where
  "thousandths v =
     (let a = nat \<bar>mant v\<bar>
      in if 0 \<le> expo v then a * 2 ^ nat (expo v) * 1000
         else round_half_even (a * 1000) (2 ^ nat (- expo v)))"

definition render_fixed3 :: "bool \<Rightarrow> nat \<Rightarrow> string" where
  "render_fixed3 neg q =
     (if neg then ''-'' else '''') @ decimal (q div 1000) @ ''.'' @
     [digit_char (q mod 1000 div 100), digit_char (q mod 100 div 10), digit_char (q mod 10)]"

definition Sprintf_3f :: "fval \<Rightarrow> string" where
  "Sprintf_3f v = render_fixed3 (mant v < 0) (thousandths v)"

definition nanoSecondsToSeconds :: "int64 \<Rightarrow> string" where
  "nanoSecondsToSeconds nanoseconds =
     (let seconds = float64_mul (float64_of_int64 nanoseconds) math_Pow_1000_neg3
      in Sprintf_3f seconds)"

text \<open>
  The conversion as the specification words it: the seconds with three decimal digits,
  the further digits of the nanosecond count cut off.
\<close>

definition truncated_seconds :: "int64 \<Rightarrow> string" where
  "truncated_seconds nanoseconds =
     (let a = nat \<bar>sint nanoseconds\<bar>
      in render_fixed3 (sint nanoseconds < 0) (a div 1000000))"

section \<open>Envelopes\<close>

text \<open>
  \<open>events.Envelope_EventType\<close> is a 32-bit enumeration; the values named by
  \<open>NewSplunkForwarder\<close> are these eight, and an envelope may carry any other number.
\<close>

type_synonym Envelope_EventType = int32

abbreviation Envelope_HttpStart :: Envelope_EventType where "Envelope_HttpStart \<equiv> 2"
abbreviation Envelope_HttpStop :: Envelope_EventType where "Envelope_HttpStop \<equiv> 3"
abbreviation Envelope_HttpStartStop :: Envelope_EventType where "Envelope_HttpStartStop \<equiv> 4"
abbreviation Envelope_LogMessage :: Envelope_EventType where "Envelope_LogMessage \<equiv> 5"
abbreviation Envelope_ValueMetric :: Envelope_EventType where "Envelope_ValueMetric \<equiv> 6"
abbreviation Envelope_CounterEvent :: Envelope_EventType where "Envelope_CounterEvent \<equiv> 7"
abbreviation Envelope_Error :: Envelope_EventType where "Envelope_Error \<equiv> 8"
abbreviation Envelope_ContainerMetric :: Envelope_EventType where "Envelope_ContainerMetric \<equiv> 9"

text \<open>
  The name table of the enumeration and its \<open>String\<close> method: the name of a listed
  value, the decimal number of any other.
\<close>

definition Envelope_EventType_name :: "(int32 \<times> string) list" where
  "Envelope_EventType_name =
     [(Envelope_HttpStart, ''HttpStart''),
      (Envelope_HttpStop, ''HttpStop''),
      (Envelope_HttpStartStop, ''HttpStartStop''),
      (Envelope_LogMessage, ''LogMessage''),
      (Envelope_ValueMetric, ''ValueMetric''),
      (Envelope_CounterEvent, ''CounterEvent''),
      (Envelope_Error, ''Error''),
      (Envelope_ContainerMetric, ''ContainerMetric'')]"

definition EventType_String :: "Envelope_EventType \<Rightarrow> string" where
  "EventType_String x =
     (case map_of Envelope_EventType_name x of
        Some name \<Rightarrow> name
      | None \<Rightarrow> Itoa (sint x))"

text \<open>
  The other enumerations of the event library (peer type, HTTP method, log message
  type) are not declared in this repository: their \<open>String\<close> methods and the values
  their getters return for an unset field are parameters of the model.
\<close>

record sonde =
  PeerType_String :: "int32 \<Rightarrow> string"
  Method_String :: "int32 \<Rightarrow> string"
  MessageType_String :: "int32 \<Rightarrow> string"
  PeerType_default :: int32
  Method_default :: int32
  MessageType_default :: int32

text \<open>
  The payloads. A field holds what the generated getter of that field returns. Getters
  are nil-safe: on an absent payload each returns the zero value of its field.
\<close>

record HttpStartStop =
  hss_StartTimestamp :: int64
  hss_StopTimestamp :: int64
  hss_RequestId :: "UUID option"
  hss_PeerType :: int32
  hss_Method :: int32
  hss_Uri :: string
  hss_RemoteAddress :: string
  hss_UserAgent :: string
  hss_StatusCode :: int32
  hss_ContentLength :: int64
  hss_ApplicationId :: "UUID option"
  hss_InstanceIndex :: int32
  hss_Forwarded :: "string list"

record LogMessage =
  lm_Message :: "byte list"
  lm_MessageType :: int32
  lm_Timestamp :: int64
  lm_AppId :: string
  lm_SourceType :: string
  lm_SourceInstance :: string

record ValueMetric =
  vm_Name :: string
  vm_Value :: float64
  vm_Unit :: string

record CounterEvent =
  ce_Name :: string
  ce_Delta :: uint64
  ce_Total :: uint64

record Error =
  er_Source :: string
  er_Code :: int32
  er_Message :: string

record ContainerMetric =
  cm_ApplicationId :: string
  cm_InstanceIndex :: int32
  cm_CpuPercentage :: float64
  cm_MemoryBytes :: uint64
  cm_DiskBytes :: uint64

definition HttpStartStop_getters :: "sonde \<Rightarrow> HttpStartStop option \<Rightarrow> HttpStartStop" where
  "HttpStartStop_getters lib m =
     (case m of
        Some p \<Rightarrow> p
      | None \<Rightarrow>
          \<lparr>hss_StartTimestamp = 0, hss_StopTimestamp = 0, hss_RequestId = None,
           hss_PeerType = PeerType_default lib, hss_Method = Method_default lib,
           hss_Uri = '''', hss_RemoteAddress = '''', hss_UserAgent = '''',
           hss_StatusCode = 0, hss_ContentLength = 0, hss_ApplicationId = None,
           hss_InstanceIndex = 0, hss_Forwarded = []\<rparr>)"

definition LogMessage_getters :: "sonde \<Rightarrow> LogMessage option \<Rightarrow> LogMessage" where
  "LogMessage_getters lib m =
     (case m of
        Some p \<Rightarrow> p
      | None \<Rightarrow>
          \<lparr>lm_Message = [], lm_MessageType = MessageType_default lib, lm_Timestamp = 0,
           lm_AppId = '''', lm_SourceType = '''', lm_SourceInstance = ''''\<rparr>)"

definition ValueMetric_getters :: "ValueMetric option \<Rightarrow> ValueMetric" where
  "ValueMetric_getters m =
     (case m of
        Some p \<Rightarrow> p
      | None \<Rightarrow> \<lparr>vm_Name = '''', vm_Value = 0, vm_Unit = ''''\<rparr>)"

definition CounterEvent_getters :: "CounterEvent option \<Rightarrow> CounterEvent" where
  "CounterEvent_getters m =
     (case m of
        Some p \<Rightarrow> p
      | None \<Rightarrow> \<lparr>ce_Name = '''', ce_Delta = 0, ce_Total = 0\<rparr>)"

definition Error_getters :: "Error option \<Rightarrow> Error" where
  "Error_getters m =
     (case m of
        Some p \<Rightarrow> p
      | None \<Rightarrow> \<lparr>er_Source = '''', er_Code = 0, er_Message = ''''\<rparr>)"

definition ContainerMetric_getters :: "ContainerMetric option \<Rightarrow> ContainerMetric" where
  "ContainerMetric_getters m =
     (case m of
        Some p \<Rightarrow> p
      | None \<Rightarrow>
          \<lparr>cm_ApplicationId = '''', cm_InstanceIndex = 0, cm_CpuPercentage = 0,
           cm_MemoryBytes = 0, cm_DiskBytes = 0\<rparr>)"

text \<open>
  \<open>events.Envelope\<close>: the common origin fields (again as their getters return them),
  the declared kind, and one optional payload for each kind. The declared kind and the
  payloads present are independent of each other.
\<close>

record Envelope =
  env_EventType :: Envelope_EventType
  env_Timestamp :: int64
  env_Deployment :: string
  env_Job :: string
  env_Index :: string
  env_Ip :: string
  env_HttpStartStop :: "HttpStartStop option"
  env_LogMessage :: "LogMessage option"
  env_ValueMetric :: "ValueMetric option"
  env_CounterEvent :: "CounterEvent option"
  env_Error :: "Error option"
  env_ContainerMetric :: "ContainerMetric option"

section \<open>Output records\<close>

record CommonMetricFields =
  Deployment :: string
  Index :: string
  EventType :: string

record SplunkHttpStartStopMetric =
  hm_Common :: CommonMetricFields
  hm_StartTimestamp :: int64
  hm_StopTimestamp :: int64
  hm_RequestId :: string
  hm_PeerType :: string
  hm_Method :: string
  hm_Uri :: string
  hm_RemoteAddress :: string
  hm_UserAgent :: string
  hm_StatusCode :: int32
  hm_ContentLength :: int64
  hm_ApplicationId :: string
  hm_InstanceIndex :: int32
  hm_Forwarded :: "string list"

record SplunkLogMessageMetric =
  lg_Common :: CommonMetricFields
  lg_Message :: string
  lg_MessageType :: string
  lg_Timestamp :: int64
  lg_AppId :: string
  lg_SourceType :: string
  lg_SourceInstance :: string

record SplunkValueMetric =
  vl_Common :: CommonMetricFields
  vl_Name :: string
  vl_Value :: float64
  vl_Unit :: string

record SplunkCounterEventMetric =
  ct_Common :: CommonMetricFields
  ct_Name :: string
  ct_Delta :: uint64
  ct_Total :: uint64

record SplunkErrorMetric =
  em_Common :: CommonMetricFields
  em_Source :: string
  em_Code :: int32
  em_Message :: string

record SplunkContainerMetric =
  cn_Common :: CommonMetricFields
  cn_ApplicationId :: string
  cn_InstanceIndex :: int32
  cn_CpuPercentage :: float64
  cn_MemoryBytes :: uint64
  cn_DiskBytes :: uint64

text \<open>
  \<open>SplunkEvent\<close> is declared outside these sources; the record has the four fields
  that the builders assign. Its field \<open>Event\<close> is an empty interface: nil until a
  builder stores one of the six metric structs in it.
\<close>

datatype EventPayload =
  HttpStartStopPayload SplunkHttpStartStopMetric
| LogMessagePayload SplunkLogMessageMetric
| ValuePayload SplunkValueMetric
| CounterEventPayload SplunkCounterEventMetric
| ErrorPayload SplunkErrorMetric
| ContainerPayload SplunkContainerMetric

record SplunkEvent =
  Time :: string
  Host :: string
  Source :: string
  Event :: "EventPayload option"

fun payload_common :: "EventPayload \<Rightarrow> CommonMetricFields" where
  "payload_common (HttpStartStopPayload m) = hm_Common m"
| "payload_common (LogMessagePayload m) = lg_Common m"
| "payload_common (ValuePayload m) = vl_Common m"
| "payload_common (CounterEventPayload m) = ct_Common m"
| "payload_common (ErrorPayload m) = em_Common m"
| "payload_common (ContainerPayload m) = cn_Common m"

text \<open>The \<open>eventType\<close> an output record carries, if it has a payload.\<close>

definition record_eventType :: "SplunkEvent \<Rightarrow> string option" where
  "record_eventType ev = map_option (\<lambda>p. EventType (payload_common p)) (Event ev)"

definition zero_common :: CommonMetricFields where
  "zero_common = \<lparr>Deployment = '''', Index = '''', EventType = ''''\<rparr>"

section \<open>The builders\<close>

text \<open>
  \<open>buildSplunkMetric\<close> fills the shared fields through the pointer it is given and
  returns a new event: the model returns both.
\<close>

definition buildSplunkMetric ::
  "Envelope \<Rightarrow> CommonMetricFields \<Rightarrow> CommonMetricFields \<times> SplunkEvent" where
  "buildSplunkMetric nozzleEvent shared =
     (let shared = shared\<lparr>Deployment := env_Deployment nozzleEvent\<rparr>;
          shared = shared\<lparr>Index := env_Index nozzleEvent\<rparr>;
          shared = shared\<lparr>EventType := EventType_String (env_EventType nozzleEvent)\<rparr>;
          splunkEvent =
            \<lparr>Time = nanoSecondsToSeconds (env_Timestamp nozzleEvent),
             Host = env_Ip nozzleEvent,
             Source = env_Job nozzleEvent,
             Event = None\<rparr>
      in (shared, splunkEvent))"

definition BuildHttpStartStopMetric :: "sonde \<Rightarrow> Envelope \<Rightarrow> SplunkEvent" where
  "BuildHttpStartStopMetric lib nozzleEvent =
     (let startStop = HttpStartStop_getters lib (env_HttpStartStop nozzleEvent);
          splunkHttpStartStopMetric =
            \<lparr>hm_Common = zero_common,
             hm_StartTimestamp = hss_StartTimestamp startStop,
             hm_StopTimestamp = hss_StopTimestamp startStop,
             hm_RequestId = uuidToHex (hss_RequestId startStop),
             hm_PeerType = PeerType_String lib (hss_PeerType startStop),
             hm_Method = Method_String lib (hss_Method startStop),
             hm_Uri = hss_Uri startStop,
             hm_RemoteAddress = hss_RemoteAddress startStop,
             hm_UserAgent = hss_UserAgent startStop,
             hm_StatusCode = hss_StatusCode startStop,
             hm_ContentLength = hss_ContentLength startStop,
             hm_ApplicationId = uuidToHex (hss_ApplicationId startStop),
             hm_InstanceIndex = hss_InstanceIndex startStop,
             hm_Forwarded = hss_Forwarded startStop\<rparr>;
          (shared, splunkEvent) =
            buildSplunkMetric nozzleEvent (hm_Common splunkHttpStartStopMetric);
          splunkHttpStartStopMetric = splunkHttpStartStopMetric\<lparr>hm_Common := shared\<rparr>
      in splunkEvent\<lparr>Event := Some (HttpStartStopPayload splunkHttpStartStopMetric)\<rparr>)"

definition BuildLogMessageMetric :: "sonde \<Rightarrow> Envelope \<Rightarrow> SplunkEvent" where
  "BuildLogMessageMetric lib nozzleEvent =
     (let logMessageMetric = LogMessage_getters lib (env_LogMessage nozzleEvent);
          splunkLogMessageMetric =
            \<lparr>lg_Common = zero_common,
             lg_Message = map (\<lambda>b. char_of (unat b)) (lm_Message logMessageMetric),
             lg_MessageType = MessageType_String lib (lm_MessageType logMessageMetric),
             lg_Timestamp = lm_Timestamp logMessageMetric,
             lg_AppId = lm_AppId logMessageMetric,
             lg_SourceType = lm_SourceType logMessageMetric,
             lg_SourceInstance = lm_SourceInstance logMessageMetric\<rparr>;
          (shared, splunkEvent) =
            buildSplunkMetric nozzleEvent (lg_Common splunkLogMessageMetric);
          splunkLogMessageMetric = splunkLogMessageMetric\<lparr>lg_Common := shared\<rparr>
      in splunkEvent\<lparr>Event := Some (LogMessagePayload splunkLogMessageMetric)\<rparr>)"

definition BuildValueMetric :: "Envelope \<Rightarrow> SplunkEvent" where
  "BuildValueMetric nozzleEvent =
     (let valueMetric = ValueMetric_getters (env_ValueMetric nozzleEvent);
          splunkValueMetric =
            \<lparr>vl_Common = zero_common,
             vl_Name = vm_Name valueMetric,
             vl_Value = vm_Value valueMetric,
             vl_Unit = vm_Unit valueMetric\<rparr>;
          (shared, splunkEvent) = buildSplunkMetric nozzleEvent (vl_Common splunkValueMetric);
          splunkValueMetric = splunkValueMetric\<lparr>vl_Common := shared\<rparr>
      in splunkEvent\<lparr>Event := Some (ValuePayload splunkValueMetric)\<rparr>)"

definition BuildCounterEventMetric :: "Envelope \<Rightarrow> SplunkEvent" where
  "BuildCounterEventMetric nozzleEvent =
     (let counterEvent = CounterEvent_getters (env_CounterEvent nozzleEvent);
          splunkCounterEventMetric =
            \<lparr>ct_Common = zero_common,
             ct_Name = ce_Name counterEvent,
             ct_Delta = ce_Delta counterEvent,
             ct_Total = ce_Total counterEvent\<rparr>;
          (shared, splunkEvent) =
            buildSplunkMetric nozzleEvent (ct_Common splunkCounterEventMetric);
          splunkCounterEventMetric = splunkCounterEventMetric\<lparr>ct_Common := shared\<rparr>
      in splunkEvent\<lparr>Event := Some (CounterEventPayload splunkCounterEventMetric)\<rparr>)"

definition BuildErrorMetric :: "Envelope \<Rightarrow> SplunkEvent" where
  "BuildErrorMetric nozzleEvent =
     (let errorMetric = Error_getters (env_Error nozzleEvent);
          splunkErrorMetric =
            \<lparr>em_Common = zero_common,
             em_Source = er_Source errorMetric,
             em_Code = er_Code errorMetric,
             em_Message = er_Message errorMetric\<rparr>;
          (shared, splunkEvent) = buildSplunkMetric nozzleEvent (em_Common splunkErrorMetric);
          splunkErrorMetric = splunkErrorMetric\<lparr>em_Common := shared\<rparr>
      in splunkEvent\<lparr>Event := Some (ErrorPayload splunkErrorMetric)\<rparr>)"

definition BuildContainerMetric :: "Envelope \<Rightarrow> SplunkEvent" where
  "BuildContainerMetric nozzleEvent =
     (let containerMetric = ContainerMetric_getters (env_ContainerMetric nozzleEvent);
          splunkContainerMetric =
            \<lparr>cn_Common = zero_common,
             cn_ApplicationId = cm_ApplicationId containerMetric,
             cn_InstanceIndex = cm_InstanceIndex containerMetric,
             cn_CpuPercentage = cm_CpuPercentage containerMetric,
             cn_MemoryBytes = cm_MemoryBytes containerMetric,
             cn_DiskBytes = cm_DiskBytes containerMetric\<rparr>;
          (shared, splunkEvent) =
            buildSplunkMetric nozzleEvent (cn_Common splunkContainerMetric);
          splunkContainerMetric = splunkContainerMetric\<lparr>cn_Common := shared\<rparr>
      in splunkEvent\<lparr>Event := Some (ContainerPayload splunkContainerMetric)\<rparr>)"

section \<open>The nozzle\<close>

type_synonym error = string

text \<open>
  \<open>SplunkClient\<close> is an interface declared outside these sources. The nozzle calls
  only its \<open>PostBatch\<close>, on the batch, and discards what the call returns: nil
  (\<open>None\<close>) or an error.
\<close>

record SplunkClient =
  PostBatch :: "SplunkEvent list \<Rightarrow> error option"

text \<open>
  \<open>SplunkNozzle\<close>. The two channels are the inputs of \<open>Run\<close> below. What the nozzle
  does to its collaborators is recorded in two more fields: \<open>posted\<close>, the arguments of
  the calls of \<open>PostBatch\<close> in order, and \<open>logged\<close>, the lines given to the logger.
\<close>

record SplunkNozzle =
  splunkClient :: SplunkClient
  includedEventTypes :: "Envelope_EventType \<rightharpoonup> bool"
  batch :: "SplunkEvent list"
  posted :: "SplunkEvent list list"
  logged :: "string list"

text \<open>Reading a Go map of booleans: a missing key reads as \<open>false\<close>.\<close>

definition map_index :: "('k \<rightharpoonup> bool) \<Rightarrow> 'k \<Rightarrow> bool" where
  "map_index m k = (case m k of Some b \<Rightarrow> b | None \<Rightarrow> False)"

text \<open>The body of the loop over the selected event types.\<close>

definition include_type :: "Envelope_EventType \<Rightarrow> SplunkNozzle \<Rightarrow> SplunkNozzle" where
  "include_type selectedEventType splunkNozzle =
     splunkNozzle\<lparr>includedEventTypes :=
       (includedEventTypes splunkNozzle)(selectedEventType \<mapsto> True)\<rparr>"

definition NewSplunkForwarder ::
  "SplunkClient \<Rightarrow> Envelope_EventType list \<Rightarrow> SplunkNozzle" where
  "NewSplunkForwarder client selectedEventTypes =
     (let splunkNozzle =
            \<lparr>splunkClient = client, includedEventTypes = Map.empty, batch = [],
             posted = [], logged = []\<rparr>;
          splunkNozzle = splunkNozzle\<lparr>includedEventTypes :=
            [Envelope_HttpStart \<mapsto> False,
             Envelope_HttpStop \<mapsto> False,
             Envelope_HttpStartStop \<mapsto> False,
             Envelope_LogMessage \<mapsto> False,
             Envelope_ValueMetric \<mapsto> False,
             Envelope_CounterEvent \<mapsto> False,
             Envelope_Error \<mapsto> False,
             Envelope_ContainerMetric \<mapsto> False]\<rparr>
      in fold include_type selectedEventTypes splunkNozzle)"

definition handleEvent :: "sonde \<Rightarrow> SplunkNozzle \<Rightarrow> Envelope \<Rightarrow> SplunkNozzle" where
  "handleEvent lib s event =
     (let eventType = env_EventType event
      in if \<not> map_index (includedEventTypes s) eventType then s
         else
           (let splunkEvent =
                  (if eventType = Envelope_HttpStart then None
                   else if eventType = Envelope_HttpStop then None
                   else if eventType = Envelope_HttpStartStop
                     then Some (BuildHttpStartStopMetric lib event)
                   else if eventType = Envelope_LogMessage
                     then Some (BuildLogMessageMetric lib event)
                   else if eventType = Envelope_ValueMetric
                     then Some (BuildValueMetric event)
                   else if eventType = Envelope_CounterEvent
                     then Some (BuildCounterEventMetric event)
                   else if eventType = Envelope_Error
                     then Some (BuildErrorMetric event)
                   else if eventType = Envelope_ContainerMetric
                     then Some (BuildContainerMetric event)
                   else None)
            in case splunkEvent of
                 None \<Rightarrow> s
               | Some ev \<Rightarrow> s\<lparr>batch := batch s @ [ev]\<rparr>))"

text \<open>
  One turn of the \<open>select\<close> in \<open>Run\<close> takes what one of three channels delivers: an
  error, an envelope, or a tick of the flush window.
\<close>

datatype selected =
  ErrorsChannel error
| EventsChannel Envelope
| Ticker

text \<open>The body of the ticker case.\<close>

definition on_tick :: "SplunkNozzle \<Rightarrow> SplunkNozzle" where
  "on_tick s =
     (if length (batch s) > 0 then
        (let s = s\<lparr>logged := logged s @
                   [''Posting '' @ Itoa (int (length (batch s))) @ '' events'']\<rparr>;
             err = PostBatch (splunkClient s) (batch s);
             s = s\<lparr>posted := posted s @ [batch s]\<rparr>;
             s = s\<lparr>batch := []\<rparr>
         in s)
      else s)"

text \<open>
  \<open>Run\<close> loops for ever and returns only from the error case. It is run here on the
  finite sequence of what its \<open>select\<close> takes: \<open>Some err\<close> is the return of \<open>err\<close>,
  and \<open>None\<close> says that the loop has not returned when the sequence ends. The second
  component is the state of the nozzle at that point.
\<close>

fun Run :: "sonde \<Rightarrow> SplunkNozzle \<Rightarrow> selected list \<Rightarrow> error option \<times> SplunkNozzle" where
  "Run lib s [] = (None, s)"
| "Run lib s (ErrorsChannel err # rest) = (Some err, s)"
| "Run lib s (EventsChannel event # rest) = Run lib (handleEvent lib s event) rest"
| "Run lib s (Ticker # rest) = Run lib (on_tick s) rest"

text \<open>
  The batching as the specification words it, for a configured \<open>BatchSize\<close>: a batch that
  has reached that length has been flushed, so the pending batch is always shorter.
\<close>

definition flushed_at_BatchSize :: "nat \<Rightarrow> SplunkNozzle \<Rightarrow> bool" where
  "flushed_at_BatchSize batchSize s = (length (batch s) < batchSize)"

text \<open>The number of delivery attempts made of a batch: the calls of \<open>PostBatch\<close> on it.\<close>

definition attempts :: "SplunkNozzle \<Rightarrow> SplunkEvent list \<Rightarrow> nat" where
  "attempts s b = count_list (posted s) b"

section \<open>The event sink (\<open>SplunkFirehoseNozzle.EventSink\<close>)\<close>

text \<open>
  The fields of the configuration that \<open>EventSink\<close> uses for its writers, its extra
  fields and its status reporter. Go's \<open>int\<close> and \<open>time.Duration\<close> are 64-bit signed
  integers: they are kept as integers, and the one sum is wrapped around explicitly.
\<close>

record Config =
  SplunkHost :: string
  SplunkToken :: string
  SplunkIndex :: string
  SkipSSLSplunk :: bool
  Debug :: bool
  Version :: string
  SplunkMetricIndex :: string
  HecWorkers :: int
  ExtraFields :: string
  StatusMonitorInterval :: int

definition wrap_int64 :: "int \<Rightarrow> int" where
  "wrap_int64 i = signed_take_bit 63 i"

record writer_SplunkConfig =
  wc_Host :: string
  wc_Token :: string
  wc_Index :: string
  wc_SkipSSL :: bool
  wc_Debug :: bool
  wc_Version :: string
  wc_MetricIndex :: string

text \<open>A writer, with the names of the two counters registered for it.\<close>

record writer_SplunkEvent =
  w_config :: writer_SplunkConfig
  SentEventCount :: string
  BodyBufferSize :: string

text \<open>The loop \<open>for i := 0; i < s.config.HecWorkers+1; i++\<close> that collects the writers.\<close>

function make_writers ::
  "Config \<Rightarrow> writer_SplunkConfig \<Rightarrow> int \<Rightarrow> writer_SplunkEvent list \<Rightarrow> writer_SplunkEvent list"
  where
  "make_writers config writerConfig i writers =
     (if i < wrap_int64 (HecWorkers config + 1) then
        (let splunkWriter =
               \<lparr>w_config = writerConfig,
                SentEventCount = ''splunk.events.sent.count'',
                BodyBufferSize = ''splunk.events.throughput''\<rparr>
         in make_writers config writerConfig (i + 1) (writers @ [splunkWriter]))
      else writers)"
  by pat_completeness auto
termination
  by (relation "measure (\<lambda>(config, writerConfig, i, writers).
        nat (wrap_int64 (HecWorkers config + 1) - i))") auto

declare make_writers.simps [simp del]

text \<open>
  Modelled from the spec: the type \<open>eventsink.Splunk\<close> and its constructor
  \<open>NewSplunk\<close> are not among the sources. The sink is kept as the writers it was
  given, the writers on which \<open>Open\<close> has started a delivery worker, and whether the
  status reporter \<open>LogStatus\<close> has been started.
\<close>

record Sink =
  sink_writers :: "writer_SplunkEvent list"
  workers :: "writer_SplunkEvent list"
  status_reporter :: bool

definition NewSplunk :: "writer_SplunkEvent list \<Rightarrow> Sink" where
  "NewSplunk writers = \<lparr>sink_writers = writers, workers = [], status_reporter = False\<rparr>"

text \<open>
  Modelled from the spec: \<open>eventsink.Splunk.Open\<close> is not among the sources. The
  specification gives the pool \<open>N\<close> delivery workers, \<open>N\<close> the configured \<open>HecWorkers\<close>,
  and a status reporter that is not counted against \<open>N\<close> although the pool size is
  overloaded to host it: of the writers handed to the sink, one is kept for the status
  reporter and each of the others gets a delivery worker.
\<close>

definition Splunk_Open :: "Sink \<Rightarrow> Sink" where
  "Splunk_Open sink = sink\<lparr>workers := butlast (sink_writers sink)\<rparr>"

text \<open>
  \<open>EventSink\<close>. \<open>events.ParseExtraFields\<close> is a parameter; the sink and parse
  configurations, which only copy fields of the configuration, are left out.
\<close>

definition EventSink ::
  "(string \<Rightarrow> error + (string \<rightharpoonup> string)) \<Rightarrow> Config \<Rightarrow> error + Sink" where
  "EventSink ParseExtraFields config =
     (let writerConfig =
            \<lparr>wc_Host = SplunkHost config, wc_Token = SplunkToken config,
             wc_Index = SplunkIndex config, wc_SkipSSL = SkipSSLSplunk config,
             wc_Debug = Debug config, wc_Version = Version config,
             wc_MetricIndex = SplunkMetricIndex config\<rparr>;
          writers = make_writers config writerConfig 0 []
      in case ParseExtraFields (ExtraFields config) of
           Inl err \<Rightarrow> Inl err
         | Inr parsedExtraFields \<Rightarrow>
             (let splunkSink = NewSplunk writers;
                  splunkSink = Splunk_Open splunkSink;
                  splunkSink =
                    (if StatusMonitorInterval config > 0
                     then splunkSink\<lparr>status_reporter := True\<rparr> else splunkSink)
              in Inr splunkSink))"

section \<open>Sample inputs\<close>

text \<open>A library instance, two clients and an envelope on which the results are run.\<close>

definition sample_lib :: sonde where
  "sample_lib =
     \<lparr>PeerType_String = (\<lambda>x. if x = 1 then ''Client'' else ''Server''),
      Method_String = (\<lambda>x. if x = 1 then ''GET'' else ''POST''),
      MessageType_String = (\<lambda>x. if x = 1 then ''OUT'' else ''ERR''),
      PeerType_default = 1, Method_default = 1, MessageType_default = 1\<rparr>"

definition accepting_client :: SplunkClient where
  "accepting_client = \<lparr>PostBatch = (\<lambda>events. None)\<rparr>"

definition failing_client :: SplunkClient where
  "failing_client = \<lparr>PostBatch = (\<lambda>events. Some ''connection refused'')\<rparr>"

text \<open>
  An envelope of a given declared kind whose only payload is a value metric: it is well
  formed as a \<open>ValueMetric\<close>, and lacks its payload under any other declared kind.
\<close>

definition sample_envelope :: "Envelope_EventType \<Rightarrow> Envelope" where
  "sample_envelope kind =
     \<lparr>env_EventType = kind, env_Timestamp = 1500000000000000000,
      env_Deployment = ''cf'', env_Job = ''router'', env_Index = ''0'', env_Ip = ''10.0.0.1'',
      env_HttpStartStop = None, env_LogMessage = None,
      env_ValueMetric = Some \<lparr>vm_Name = ''latency'', vm_Value = 0, vm_Unit = ''ms''\<rparr>,
      env_CounterEvent = None, env_Error = None, env_ContainerMetric = None\<rparr>"

definition sample_config :: Config where
  "sample_config =
     \<lparr>SplunkHost = ''splunk.example.com'', SplunkToken = ''sometoken'', SplunkIndex = ''main'',
      SkipSSLSplunk = False, Debug = False, Version = ''1.0'', SplunkMetricIndex = ''metrics'',
      HecWorkers = 8, ExtraFields = '''', StatusMonitorInterval = 0\<rparr>"

text \<open>
  An envelope lacks its expected payload when its declared kind is one of the six kinds
  for which a record is built and the payload of that kind is absent. The kinds
  \<open>HttpStart\<close> and \<open>HttpStop\<close> are not among them: the switch has no builder for
  them, so no payload of theirs is ever read.
\<close>

definition lacks_payload :: "Envelope \<Rightarrow> bool" where
  "lacks_payload event =
     (env_EventType event = Envelope_HttpStartStop \<and> env_HttpStartStop event = None \<or>
      env_EventType event = Envelope_LogMessage \<and> env_LogMessage event = None \<or>
      env_EventType event = Envelope_ValueMetric \<and> env_ValueMetric event = None \<or>
      env_EventType event = Envelope_CounterEvent \<and> env_CounterEvent event = None \<or>
      env_EventType event = Envelope_Error \<and> env_Error event = None \<or>
      env_EventType event = Envelope_ContainerMetric \<and> env_ContainerMetric event = None)"

section \<open>Results: identifier rendering\<close>

lemma length_hex_Encode: "length (hex_Encode bs) = 2 * length bs"
  by (induction bs) simp_all

lemma high_nibble_less: "unat (drop_bit 4 (v::byte)) < 16"
proof -
  have "unat v < 256" using unsigned_less [of v] by simp
  then show ?thesis by (simp add: drop_bit_eq_div unat_div)
qed

lemma low_nibble_less: "unat ((v::byte) AND 0x0f) < 16"
  using word_and_le1 [of v "0x0f", THEN word_le_nat_alt [THEN iffD1]] by simp

lemma hextable_nth: "n < 16 \<Longrightarrow> hextable ! n \<in> set hextable"
  by (rule nth_mem) (simp add: hextable_def)

lemma set_hex_Encode: "set (hex_Encode bs) \<subseteq> set hextable"
  by (induction bs) (simp_all add: hextable_nth high_nibble_less low_nibble_less)

lemma length_PutUint64: "length (PutUint64 v) = 8"
  by (simp add: PutUint64_def)

lemma replicate_update_head: "0 < n \<Longrightarrow> (replicate n x)[0 := y] = y # replicate (n - 1) x"
  by (cases n) simp_all

lemma uuidToHex_groups:
  assumes "length b = 16"
  defines "g1 \<equiv> hex_Encode (subslice b 0 4)" and "g2 \<equiv> hex_Encode (subslice b 4 6)"
    and "g3 \<equiv> hex_Encode (subslice b 6 8)" and "g4 \<equiv> hex_Encode (subslice b 8 10)"
    and "g5 \<equiv> hex_Encode (drop 10 b)"
  shows "write_at ((write_at ((write_at ((write_at ((write_at (replicate 36 (CHR 0x00)) 0 g1)
           [8 := dashByte]) 9 g2) [13 := dashByte]) 14 g3) [18 := dashByte]) 19 g4)
           [23 := dashByte]) 24 g5
         = g1 @ [dashByte] @ g2 @ [dashByte] @ g3 @ [dashByte] @ g4 @ [dashByte] @ g5"
    and "length g1 = 8" and "length g2 = 4" and "length g3 = 4" and "length g4 = 4"
    and "length g5 = 12"
proof -
  show l: "length g1 = 8" "length g2 = 4" "length g3 = 4" "length g4 = 4" "length g5 = 12"
    using assms(1) by (simp_all add: g1_def g2_def g3_def g4_def g5_def length_hex_Encode subslice_def)
  have s1: "(write_at (replicate 36 (CHR 0x00)) 0 g1)[8 := dashByte]
      = g1 @ dashByte # replicate 27 (CHR 0x00)"
    using l by (simp add: write_at_def list_update_append replicate_update_head)
  have s2: "(write_at (g1 @ dashByte # replicate 27 (CHR 0x00)) 9 g2)[13 := dashByte]
      = g1 @ dashByte # g2 @ dashByte # replicate 22 (CHR 0x00)"
    using l by (simp add: write_at_def list_update_append replicate_update_head)
  have s3: "(write_at (g1 @ dashByte # g2 @ dashByte # replicate 22 (CHR 0x00)) 14 g3)[18 := dashByte]
      = g1 @ dashByte # g2 @ dashByte # g3 @ dashByte # replicate 17 (CHR 0x00)"
    using l by (simp add: write_at_def list_update_append replicate_update_head)
  have s4: "(write_at (g1 @ dashByte # g2 @ dashByte # g3 @ dashByte # replicate 17 (CHR 0x00)) 19 g4)
        [23 := dashByte]
      = g1 @ dashByte # g2 @ dashByte # g3 @ dashByte # g4 @ dashByte # replicate 12 (CHR 0x00)"
    using l by (simp add: write_at_def list_update_append replicate_update_head)
  have s5: "write_at (g1 @ dashByte # g2 @ dashByte # g3 @ dashByte # g4 @ dashByte #
        replicate 12 (CHR 0x00)) 24 g5
      = g1 @ dashByte # g2 @ dashByte # g3 @ dashByte # g4 @ dashByte # g5"
    using l by (simp add: write_at_def)
  show "write_at ((write_at ((write_at ((write_at ((write_at (replicate 36 (CHR 0x00)) 0 g1)
           [8 := dashByte]) 9 g2) [13 := dashByte]) 14 g3) [18 := dashByte]) 19 g4)
           [23 := dashByte]) 24 g5
         = g1 @ [dashByte] @ g2 @ [dashByte] @ g3 @ [dashByte] @ g4 @ [dashByte] @ g5"
    by (simp only: s1 s2 s3 s4 s5 append_Cons append_Nil)
qed

text \<open>
  C4. \<open>uuidToHex\<close> is a total function: a nil identifier gives the empty string, and any
  pair of 64-bit halves gives 36 characters, five groups of 8, 4, 4, 4 and 12 lowercase
  hexadecimal digits separated by hyphens.
\<close>

theorem uuidToHex_layout:
  "uuidToHex None = '''' \<and>
   length (uuidToHex (Some u)) = 36 \<and>
   (\<exists>g1 g2 g3 g4 g5.
      uuidToHex (Some u) = g1 @ ''-'' @ g2 @ ''-'' @ g3 @ ''-'' @ g4 @ ''-'' @ g5 \<and>
      length g1 = 8 \<and> length g2 = 4 \<and> length g3 = 4 \<and> length g4 = 4 \<and> length g5 = 12 \<and>
      set (g1 @ g2 @ g3 @ g4 @ g5) \<subseteq> set ''0123456789abcdef'')"
proof -
  define b where "b = PutUint64 (Low u) @ PutUint64 (High u)"
  have lb: "length b = 16" by (simp add: b_def length_PutUint64)
  note g = uuidToHex_groups [OF lb]
  have eq: "uuidToHex (Some u) =
      hex_Encode (subslice b 0 4) @ ''-'' @ hex_Encode (subslice b 4 6) @ ''-'' @
      hex_Encode (subslice b 6 8) @ ''-'' @ hex_Encode (subslice b 8 10) @ ''-'' @
      hex_Encode (drop 10 b)"
    using g(1) by (simp add: uuidToHex_def Let_def b_def [symmetric] dashByte_def)
  have sub: "set (hex_Encode (subslice b 0 4) @ hex_Encode (subslice b 4 6) @
      hex_Encode (subslice b 6 8) @ hex_Encode (subslice b 8 10) @ hex_Encode (drop 10 b))
      \<subseteq> set ''0123456789abcdef''"
    using set_hex_Encode by (simp add: hextable_def)
  have len: "length (uuidToHex (Some u)) = 36"
    unfolding eq using g(2-6) by simp
  have "uuidToHex None = ''''" by (simp add: uuidToHex_def)
  with len eq g(2-6) sub show ?thesis by blast
qed

section \<open>Results: handling one envelope\<close>

lemma handleEvent_cases:
  "handleEvent lib s event = s \<or>
   (map_index (includedEventTypes s) (env_EventType event) \<and>
    (env_EventType event = Envelope_HttpStartStop \<and>
       handleEvent lib s event = s\<lparr>batch := batch s @ [BuildHttpStartStopMetric lib event]\<rparr> \<or>
     env_EventType event = Envelope_LogMessage \<and>
       handleEvent lib s event = s\<lparr>batch := batch s @ [BuildLogMessageMetric lib event]\<rparr> \<or>
     env_EventType event = Envelope_ValueMetric \<and>
       handleEvent lib s event = s\<lparr>batch := batch s @ [BuildValueMetric event]\<rparr> \<or>
     env_EventType event = Envelope_CounterEvent \<and>
       handleEvent lib s event = s\<lparr>batch := batch s @ [BuildCounterEventMetric event]\<rparr> \<or>
     env_EventType event = Envelope_Error \<and>
       handleEvent lib s event = s\<lparr>batch := batch s @ [BuildErrorMetric event]\<rparr> \<or>
     env_EventType event = Envelope_ContainerMetric \<and>
       handleEvent lib s event = s\<lparr>batch := batch s @ [BuildContainerMetric event]\<rparr>))"
  by (simp add: handleEvent_def Let_def)

lemma handleEvent_built:
  assumes "map_index (includedEventTypes s) (env_EventType event)"
  shows "env_EventType event = Envelope_HttpStartStop \<Longrightarrow>
           handleEvent lib s event = s\<lparr>batch := batch s @ [BuildHttpStartStopMetric lib event]\<rparr>"
    and "env_EventType event = Envelope_LogMessage \<Longrightarrow>
           handleEvent lib s event = s\<lparr>batch := batch s @ [BuildLogMessageMetric lib event]\<rparr>"
    and "env_EventType event = Envelope_ValueMetric \<Longrightarrow>
           handleEvent lib s event = s\<lparr>batch := batch s @ [BuildValueMetric event]\<rparr>"
    and "env_EventType event = Envelope_CounterEvent \<Longrightarrow>
           handleEvent lib s event = s\<lparr>batch := batch s @ [BuildCounterEventMetric event]\<rparr>"
    and "env_EventType event = Envelope_Error \<Longrightarrow>
           handleEvent lib s event = s\<lparr>batch := batch s @ [BuildErrorMetric event]\<rparr>"
    and "env_EventType event = Envelope_ContainerMetric \<Longrightarrow>
           handleEvent lib s event = s\<lparr>batch := batch s @ [BuildContainerMetric event]\<rparr>"
  using assms by (simp_all add: handleEvent_def Let_def)

lemma record_eventType_builders:
  "record_eventType (BuildHttpStartStopMetric lib event) = Some (EventType_String (env_EventType event))"
  "record_eventType (BuildLogMessageMetric lib event) = Some (EventType_String (env_EventType event))"
  "record_eventType (BuildValueMetric event) = Some (EventType_String (env_EventType event))"
  "record_eventType (BuildCounterEventMetric event) = Some (EventType_String (env_EventType event))"
  "record_eventType (BuildErrorMetric event) = Some (EventType_String (env_EventType event))"
  "record_eventType (BuildContainerMetric event) = Some (EventType_String (env_EventType event))"
  by (simp_all add: record_eventType_def buildSplunkMetric_def Let_def
      BuildHttpStartStopMetric_def BuildLogMessageMetric_def BuildValueMetric_def
      BuildCounterEventMetric_def BuildErrorMetric_def BuildContainerMetric_def)

lemma EventType_String_named:
  "EventType_String Envelope_HttpStart = ''HttpStart''"
  "EventType_String Envelope_HttpStop = ''HttpStop''"
  "EventType_String Envelope_HttpStartStop = ''HttpStartStop''"
  "EventType_String Envelope_LogMessage = ''LogMessage''"
  "EventType_String Envelope_ValueMetric = ''ValueMetric''"
  "EventType_String Envelope_CounterEvent = ''CounterEvent''"
  "EventType_String Envelope_Error = ''Error''"
  "EventType_String Envelope_ContainerMetric = ''ContainerMetric''"
  by (simp_all add: EventType_String_def Envelope_EventType_name_def)

lemma handleEvent_posted: "posted (handleEvent lib s event) = posted s"
  using handleEvent_cases [of lib s event] by auto

lemma handleEvent_logged: "logged (handleEvent lib s event) = logged s"
  using handleEvent_cases [of lib s event] by auto

lemma handleEvent_includedEventTypes:
  "includedEventTypes (handleEvent lib s event) = includedEventTypes s"
  using handleEvent_cases [of lib s event] by auto

lemma handleEvent_splunkClient: "splunkClient (handleEvent lib s event) = splunkClient s"
  using handleEvent_cases [of lib s event] by auto

text \<open>
  C6. An envelope whose kind is not in the allow-list leaves the nozzle as it was: the
  batch, the calls made to the client and the log are unchanged, and no record is built
  (the nozzle has no cache to look anything up in).
\<close>

theorem handleEvent_not_selected:
  assumes "\<not> map_index (includedEventTypes s) (env_EventType event)"
  shows "handleEvent lib s event = s"
  using assms by (simp add: handleEvent_def)

lemma included_fold_keeps:
  "includedEventTypes n t = Some True \<Longrightarrow>
   includedEventTypes (fold include_type sel n) t = Some True"
  by (induction sel arbitrary: n) (simp_all add: include_type_def)

lemma included_fold_selected:
  "t \<in> set sel \<Longrightarrow> includedEventTypes (fold include_type sel n) t = Some True"
proof (induction sel arbitrary: n)
  case Nil
  then show ?case by simp
next
  case (Cons a sel)
  show ?case
  proof (cases "t = a")
    case True
    have "includedEventTypes (include_type a n) t = Some True"
      using True by (simp add: include_type_def)
    from included_fold_keeps [OF this] show ?thesis by simp
  next
    case False
    with Cons show ?thesis by simp
  qed
qed

lemma included_fold_other:
  "t \<notin> set sel \<Longrightarrow> includedEventTypes (fold include_type sel n) t = includedEventTypes n t"
  by (induction sel arbitrary: n) (simp_all add: include_type_def)

lemma fold_keeps_fields:
  "batch (fold include_type sel n) = batch n \<and>
   posted (fold include_type sel n) = posted n \<and>
   logged (fold include_type sel n) = logged n \<and>
   splunkClient (fold include_type sel n) = splunkClient n"
  by (induction sel arbitrary: n) (simp_all add: include_type_def)

lemma NewSplunkForwarder_selected:
  "map_index (includedEventTypes (NewSplunkForwarder client sel)) t \<longleftrightarrow> t \<in> set sel"
proof (cases "t \<in> set sel")
  case True
  then show ?thesis
    by (simp add: NewSplunkForwarder_def Let_def map_index_def included_fold_selected)
next
  case False
  then show ?thesis
    by (simp add: NewSplunkForwarder_def Let_def map_index_def included_fold_other)
qed

lemma NewSplunkForwarder_fields:
  "batch (NewSplunkForwarder client sel) = []"
  "posted (NewSplunkForwarder client sel) = []"
  "logged (NewSplunkForwarder client sel) = []"
  "splunkClient (NewSplunkForwarder client sel) = client"
  by (simp_all add: NewSplunkForwarder_def Let_def fold_keeps_fields)

theorem handleEvent_not_selected_witness:
  "\<not> map_index (includedEventTypes (NewSplunkForwarder accepting_client [Envelope_LogMessage]))
       (env_EventType (sample_envelope Envelope_ValueMetric)) \<and>
   handleEvent sample_lib (NewSplunkForwarder accepting_client [Envelope_LogMessage])
     (sample_envelope Envelope_ValueMetric)
   = NewSplunkForwarder accepting_client [Envelope_LogMessage]"
proof -
  have h: "\<not> map_index (includedEventTypes (NewSplunkForwarder accepting_client [Envelope_LogMessage]))
       (env_EventType (sample_envelope Envelope_ValueMetric))"
    by (simp add: NewSplunkForwarder_selected sample_envelope_def)
  from handleEvent_not_selected [OF h] h show ?thesis by simp
qed

text \<open>
  C10. The constructor accepts \<open>HttpStart\<close> and \<open>HttpStop\<close> into the allow-list, yet
  an envelope of either kind produces no record and leaves the nozzle, its batch
  included, unchanged: the two cases of the switch are empty.
\<close>

theorem handleEvent_HttpStart_HttpStop:
  assumes "env_EventType event = Envelope_HttpStart \<or> env_EventType event = Envelope_HttpStop"
    and "env_EventType event \<in> set selectedEventTypes"
  shows "map_index (includedEventTypes (NewSplunkForwarder client selectedEventTypes))
           (env_EventType event) \<and>
         handleEvent lib (NewSplunkForwarder client selectedEventTypes) event
           = NewSplunkForwarder client selectedEventTypes \<and>
         (map_index (includedEventTypes s) (env_EventType event) \<longrightarrow> handleEvent lib s event = s)"
  using assms by (auto simp: NewSplunkForwarder_selected handleEvent_def Let_def)

theorem handleEvent_HttpStart_HttpStop_witness:
  "map_index (includedEventTypes (NewSplunkForwarder accepting_client [Envelope_HttpStart, Envelope_HttpStop]))
     (env_EventType (sample_envelope Envelope_HttpStop)) \<and>
   handleEvent sample_lib (NewSplunkForwarder accepting_client [Envelope_HttpStart, Envelope_HttpStop])
     (sample_envelope Envelope_HttpStop)
   = NewSplunkForwarder accepting_client [Envelope_HttpStart, Envelope_HttpStop] \<and>
   batch (handleEvent sample_lib (NewSplunkForwarder accepting_client [Envelope_HttpStart, Envelope_HttpStop])
     (sample_envelope Envelope_HttpStop)) = []"
proof -
  have a: "env_EventType (sample_envelope Envelope_HttpStop) = Envelope_HttpStart \<or>
      env_EventType (sample_envelope Envelope_HttpStop) = Envelope_HttpStop"
    by (simp add: sample_envelope_def)
  have b: "env_EventType (sample_envelope Envelope_HttpStop) \<in> set [Envelope_HttpStart, Envelope_HttpStop]"
    by (simp add: sample_envelope_def)
  from handleEvent_HttpStart_HttpStop [OF a b, of accepting_client sample_lib]
  show ?thesis by (simp add: NewSplunkForwarder_fields)
qed

text \<open>
  C5. Whenever handling an envelope yields an output record, exactly one record is
  appended to the batch and its \<open>eventType\<close> is the name of the declared kind of the
  envelope, one of the six kinds for which a record is built.
\<close>

theorem handleEvent_eventType:
  assumes "handleEvent lib s event \<noteq> s"
  shows "\<exists>ev. handleEvent lib s event = s\<lparr>batch := batch s @ [ev]\<rparr> \<and>
           record_eventType ev = Some (EventType_String (env_EventType event)) \<and>
           (env_EventType event, EventType_String (env_EventType event)) \<in>
             {(Envelope_HttpStartStop, ''HttpStartStop''), (Envelope_LogMessage, ''LogMessage''),
              (Envelope_ValueMetric, ''ValueMetric''), (Envelope_CounterEvent, ''CounterEvent''),
              (Envelope_Error, ''Error''), (Envelope_ContainerMetric, ''ContainerMetric'')}"
proof -
  have yield: "?thesis"
    if "handleEvent lib s event = s\<lparr>batch := batch s @ [r]\<rparr>"
      and "record_eventType r = Some (EventType_String (env_EventType event))"
      and "(env_EventType event, EventType_String (env_EventType event)) \<in>
             {(Envelope_HttpStartStop, ''HttpStartStop''), (Envelope_LogMessage, ''LogMessage''),
              (Envelope_ValueMetric, ''ValueMetric''), (Envelope_CounterEvent, ''CounterEvent''),
              (Envelope_Error, ''Error''), (Envelope_ContainerMetric, ''ContainerMetric'')}"
    for r
    using that by blast
  from handleEvent_cases [of lib s event] assms show ?thesis
    by (elim disjE conjE, simp)
      (rule yield, assumption, simp only: record_eventType_builders,
        simp add: EventType_String_named)+
qed

theorem handleEvent_eventType_witness:
  "handleEvent sample_lib (NewSplunkForwarder accepting_client [Envelope_ValueMetric])
     (sample_envelope Envelope_ValueMetric)
     \<noteq> NewSplunkForwarder accepting_client [Envelope_ValueMetric] \<and>
   (\<exists>ev. batch (handleEvent sample_lib (NewSplunkForwarder accepting_client [Envelope_ValueMetric])
            (sample_envelope Envelope_ValueMetric)) = [ev] \<and>
         record_eventType ev = Some ''ValueMetric'')"
proof -
  let ?s = "NewSplunkForwarder accepting_client [Envelope_ValueMetric]"
  let ?e = "sample_envelope Envelope_ValueMetric"
  have k: "env_EventType ?e = Envelope_ValueMetric" by (simp add: sample_envelope_def)
  have inc: "map_index (includedEventTypes ?s) (env_EventType ?e)"
    by (simp add: NewSplunkForwarder_selected k)
  have "batch (handleEvent sample_lib ?s ?e) \<noteq> batch ?s"
    by (simp add: handleEvent_built(3) [OF inc k])
  then have ne: "handleEvent sample_lib ?s ?e \<noteq> ?s" by auto
  from handleEvent_eventType [OF ne] obtain ev where
    "handleEvent sample_lib ?s ?e = ?s\<lparr>batch := batch ?s @ [ev]\<rparr>"
    "record_eventType ev = Some (EventType_String (env_EventType ?e))" by blast
  then have "batch (handleEvent sample_lib ?s ?e) = [ev] \<and> record_eventType ev = Some ''ValueMetric''"
    by (simp add: NewSplunkForwarder_fields k EventType_String_named)
  with ne show ?thesis by blast
qed

section \<open>Results: the run loop\<close>

lemma Run_append:
  "\<forall>err. ErrorsChannel err \<notin> set pre \<Longrightarrow>
   Run lib s (pre @ rest) = Run lib (snd (Run lib s pre)) rest \<and> fst (Run lib s pre) = None"
proof (induction pre arbitrary: s)
  case Nil
  then show ?case by simp
next
  case (Cons x pre)
  then show ?case by (cases x) auto
qed

text \<open>
  C7. When the select takes an error from the error channel, \<open>Run\<close> returns at once and
  returns exactly that error: the nozzle is left as the inputs before the error made it,
  whatever is still waiting on the channels is not processed, and no call to the client
  or other retry is made for the error.
\<close>

theorem Run_returns_error:
  assumes "\<forall>e. ErrorsChannel e \<notin> set pre"
  shows "Run lib s (pre @ ErrorsChannel err # rest) = (Some err, snd (Run lib s pre)) \<and>
         fst (Run lib s pre) = None"
  using Run_append [OF assms, of lib s] by simp

theorem Run_returns_error_witness:
  "(\<forall>e. ErrorsChannel e \<notin> set [EventsChannel (sample_envelope Envelope_ValueMetric), Ticker]) \<and>
   Run sample_lib (NewSplunkForwarder accepting_client [Envelope_ValueMetric])
     ([EventsChannel (sample_envelope Envelope_ValueMetric), Ticker] @
      ErrorsChannel ''websocket closed'' # [EventsChannel (sample_envelope Envelope_ValueMetric), Ticker])
   = (Some ''websocket closed'',
      snd (Run sample_lib (NewSplunkForwarder accepting_client [Envelope_ValueMetric])
        [EventsChannel (sample_envelope Envelope_ValueMetric), Ticker])) \<and>
   posted (snd (Run sample_lib (NewSplunkForwarder accepting_client [Envelope_ValueMetric])
     ([EventsChannel (sample_envelope Envelope_ValueMetric), Ticker] @
      ErrorsChannel ''websocket closed'' # [EventsChannel (sample_envelope Envelope_ValueMetric), Ticker])))
   = [[BuildValueMetric (sample_envelope Envelope_ValueMetric)]]"
proof -
  let ?s = "NewSplunkForwarder accepting_client [Envelope_ValueMetric]"
  let ?e = "sample_envelope Envelope_ValueMetric"
  have h: "\<forall>e. ErrorsChannel e \<notin> set [EventsChannel ?e, Ticker]" by simp
  have k: "env_EventType ?e = Envelope_ValueMetric" by (simp add: sample_envelope_def)
  have inc: "map_index (includedEventTypes ?s) (env_EventType ?e)"
    by (simp add: NewSplunkForwarder_selected k)
  have p: "posted (snd (Run sample_lib ?s [EventsChannel ?e, Ticker])) = [[BuildValueMetric ?e]]"
    by (simp add: handleEvent_built(3) [OF inc k] on_tick_def Let_def NewSplunkForwarder_fields)
  from Run_returns_error [OF h, of sample_lib ?s "''websocket closed''" "[EventsChannel ?e, Ticker]"] h p
  show ?thesis by simp
qed

lemma Run_events_posted:
  "posted (snd (Run lib s (map EventsChannel events))) = posted s"
  by (induction events arbitrary: s) (simp_all add: handleEvent_posted)

lemma on_tick_empty: "batch s = [] \<Longrightarrow> on_tick s = s"
  by (simp add: on_tick_def)

lemma on_tick_nonempty:
  "batch s \<noteq> [] \<Longrightarrow> posted (on_tick s) = posted s @ [batch s] \<and> batch (on_tick s) = []"
  by (simp add: on_tick_def Let_def)

lemma on_tick_batch: "batch (on_tick s) = []"
  by (simp add: on_tick_def Let_def)

lemma on_tick_posted:
  "posted (on_tick s) = posted s @ (if batch s = [] then [] else [batch s])"
  by (simp add: on_tick_def Let_def)

lemma Run_ticks_empty: "batch s = [] \<Longrightarrow> Run lib s (replicate n Ticker) = (None, s)"
  by (induction n) (simp_all add: on_tick_empty)

lemma sample_handled:
  "includedEventTypes s = includedEventTypes (NewSplunkForwarder client [Envelope_ValueMetric]) \<Longrightarrow>
   handleEvent lib s (sample_envelope Envelope_ValueMetric)
   = s\<lparr>batch := batch s @ [BuildValueMetric (sample_envelope Envelope_ValueMetric)]\<rparr>"
proof -
  assume a: "includedEventTypes s = includedEventTypes (NewSplunkForwarder client [Envelope_ValueMetric])"
  have k: "env_EventType (sample_envelope Envelope_ValueMetric) = Envelope_ValueMetric"
    by (simp add: sample_envelope_def)
  have "map_index (includedEventTypes s) (env_EventType (sample_envelope Envelope_ValueMetric))"
    by (simp add: a NewSplunkForwarder_selected k)
  from handleEvent_built(3) [OF this k] show ?thesis .
qed

text \<open>
  C1. The loop has no size trigger. With a \<open>BatchSize\<close> of 2, three envelopes and no
  tick leave three records pending and nothing posted.
\<close>

theorem batch_grows_past_BatchSize:
  "\<not> flushed_at_BatchSize 2
       (snd (Run sample_lib (NewSplunkForwarder accepting_client [Envelope_ValueMetric])
          [EventsChannel (sample_envelope Envelope_ValueMetric),
           EventsChannel (sample_envelope Envelope_ValueMetric),
           EventsChannel (sample_envelope Envelope_ValueMetric)])) \<and>
   length (batch (snd (Run sample_lib (NewSplunkForwarder accepting_client [Envelope_ValueMetric])
          [EventsChannel (sample_envelope Envelope_ValueMetric),
           EventsChannel (sample_envelope Envelope_ValueMetric),
           EventsChannel (sample_envelope Envelope_ValueMetric)]))) = 3 \<and>
   posted (snd (Run sample_lib (NewSplunkForwarder accepting_client [Envelope_ValueMetric])
          [EventsChannel (sample_envelope Envelope_ValueMetric),
           EventsChannel (sample_envelope Envelope_ValueMetric),
           EventsChannel (sample_envelope Envelope_ValueMetric)])) = []"
  by (simp add: sample_handled [of _ accepting_client] flushed_at_BatchSize_def
      NewSplunkForwarder_fields)

text \<open>
  C1, as the code has it. On any run, the envelopes taken never post a batch, however
  many they are; a tick posts the pending batch, whole and once, when it is not empty,
  and leaves no record pending: a batch is held until the next tick and no longer.
\<close>

theorem Run_flushes_on_tick_only:
  assumes "\<forall>e. ErrorsChannel e \<notin> set pre"
  shows "posted (snd (Run lib s (pre @ map EventsChannel events))) = posted (snd (Run lib s pre)) \<and>
         batch (snd (Run lib s (pre @ [Ticker]))) = [] \<and>
         posted (snd (Run lib s (pre @ [Ticker]))) =
           posted (snd (Run lib s pre)) @
           (if batch (snd (Run lib s pre)) = [] then [] else [batch (snd (Run lib s pre))])"
  using Run_append [OF assms, of lib s]
  by (simp add: Run_events_posted on_tick_batch on_tick_posted)

theorem Run_flushes_on_tick_only_witness:
  "(\<forall>e. ErrorsChannel e \<notin> set [EventsChannel (sample_envelope Envelope_ValueMetric)]) \<and>
   posted (snd (Run sample_lib (NewSplunkForwarder accepting_client [Envelope_ValueMetric])
     ([EventsChannel (sample_envelope Envelope_ValueMetric)] @
      map EventsChannel [sample_envelope Envelope_ValueMetric, sample_envelope Envelope_ValueMetric])))
     = [] \<and>
   batch (snd (Run sample_lib (NewSplunkForwarder accepting_client [Envelope_ValueMetric])
     ([EventsChannel (sample_envelope Envelope_ValueMetric)] @ [Ticker]))) = [] \<and>
   posted (snd (Run sample_lib (NewSplunkForwarder accepting_client [Envelope_ValueMetric])
     ([EventsChannel (sample_envelope Envelope_ValueMetric)] @ [Ticker])))
     = [[BuildValueMetric (sample_envelope Envelope_ValueMetric)]]"
proof -
  let ?s = "NewSplunkForwarder accepting_client [Envelope_ValueMetric]"
  let ?e = "sample_envelope Envelope_ValueMetric"
  have h: "\<forall>e. ErrorsChannel e \<notin> set [EventsChannel ?e]" by simp
  have r: "snd (Run sample_lib ?s [EventsChannel ?e]) = ?s\<lparr>batch := [BuildValueMetric ?e]\<rparr>"
    by (simp add: sample_handled [of _ accepting_client] NewSplunkForwarder_fields)
  from Run_flushes_on_tick_only [OF h, of sample_lib ?s "[?e, ?e]"] h
  show ?thesis unfolding r by (simp add: NewSplunkForwarder_fields)
qed

text \<open>
  C2. The loop makes no second attempt. With a client whose every delivery fails, a batch
  of one record is handed to the client once, on the first tick, and is gone from the
  nozzle after it; two more ticks do not attempt it again.
\<close>

theorem failed_batch_attempted_once:
  "PostBatch failing_client [BuildValueMetric (sample_envelope Envelope_ValueMetric)] \<noteq> None \<and>
   attempts
     (snd (Run sample_lib (NewSplunkForwarder failing_client [Envelope_ValueMetric])
        [EventsChannel (sample_envelope Envelope_ValueMetric), Ticker, Ticker, Ticker]))
     [BuildValueMetric (sample_envelope Envelope_ValueMetric)] = 1 \<and>
   batch
     (snd (Run sample_lib (NewSplunkForwarder failing_client [Envelope_ValueMetric])
        [EventsChannel (sample_envelope Envelope_ValueMetric), Ticker, Ticker, Ticker])) = []"
  by (simp add: sample_handled [of _ failing_client] NewSplunkForwarder_fields on_tick_def Let_def
      attempts_def failing_client_def)

text \<open>
  C2, as the code has it. A tick on a pending batch hands that batch to \<open>PostBatch\<close>
  exactly once and clears it, and further ticks do not hand it over again; what the call
  returns is discarded, so a failed delivery changes nothing in what the loop does.
\<close>

theorem tick_posts_batch_once:
  assumes "batch s \<noteq> []"
  shows "attempts (snd (Run lib s (Ticker # replicate n Ticker))) (batch s) = attempts s (batch s) + 1 \<and>
         batch (snd (Run lib s (Ticker # replicate n Ticker))) = [] \<and>
         on_tick (s\<lparr>splunkClient := client\<rparr>) = (on_tick s)\<lparr>splunkClient := client\<rparr>"
proof -
  have "Run lib s (Ticker # replicate n Ticker) = (None, on_tick s)"
    by (simp add: Run_ticks_empty on_tick_batch)
  then show ?thesis
    using assms by (simp add: on_tick_def Let_def attempts_def)
qed

theorem tick_posts_batch_once_witness:
  "batch ((NewSplunkForwarder failing_client [Envelope_ValueMetric])
      \<lparr>batch := [BuildValueMetric (sample_envelope Envelope_ValueMetric)]\<rparr>) \<noteq> [] \<and>
   attempts (snd (Run sample_lib ((NewSplunkForwarder failing_client [Envelope_ValueMetric])
      \<lparr>batch := [BuildValueMetric (sample_envelope Envelope_ValueMetric)]\<rparr>)
      (Ticker # replicate 2 Ticker))) [BuildValueMetric (sample_envelope Envelope_ValueMetric)] = 1"
proof -
  let ?s = "(NewSplunkForwarder failing_client [Envelope_ValueMetric])
      \<lparr>batch := [BuildValueMetric (sample_envelope Envelope_ValueMetric)]\<rparr>"
  have h: "batch ?s \<noteq> []" by simp
  from tick_posts_batch_once [OF h, of sample_lib 2] h
  show ?thesis by (simp add: attempts_def NewSplunkForwarder_fields)
qed

section \<open>Results: envelopes without their payload\<close>

text \<open>
  What each builder makes of an envelope from which the payload of its kind is absent:
  the time, host and source of the envelope, its deployment, index and kind, and the
  zero value in every field taken from the payload.
\<close>

lemma BuildHttpStartStopMetric_absent:
  "env_HttpStartStop event = None \<Longrightarrow>
   BuildHttpStartStopMetric lib event =
     \<lparr>Time = nanoSecondsToSeconds (env_Timestamp event), Host = env_Ip event,
      Source = env_Job event,
      Event = Some (HttpStartStopPayload
        \<lparr>hm_Common = \<lparr>Deployment = env_Deployment event, Index = env_Index event,
                       EventType = EventType_String (env_EventType event)\<rparr>,
         hm_StartTimestamp = 0, hm_StopTimestamp = 0, hm_RequestId = '''',
         hm_PeerType = PeerType_String lib (PeerType_default lib),
         hm_Method = Method_String lib (Method_default lib),
         hm_Uri = '''', hm_RemoteAddress = '''', hm_UserAgent = '''', hm_StatusCode = 0,
         hm_ContentLength = 0, hm_ApplicationId = '''', hm_InstanceIndex = 0,
         hm_Forwarded = []\<rparr>)\<rparr>"
  by (simp add: BuildHttpStartStopMetric_def HttpStartStop_getters_def buildSplunkMetric_def
      Let_def zero_common_def uuidToHex_def)

lemma BuildLogMessageMetric_absent:
  "env_LogMessage event = None \<Longrightarrow>
   BuildLogMessageMetric lib event =
     \<lparr>Time = nanoSecondsToSeconds (env_Timestamp event), Host = env_Ip event,
      Source = env_Job event,
      Event = Some (LogMessagePayload
        \<lparr>lg_Common = \<lparr>Deployment = env_Deployment event, Index = env_Index event,
                       EventType = EventType_String (env_EventType event)\<rparr>,
         lg_Message = '''',
         lg_MessageType = MessageType_String lib (MessageType_default lib),
         lg_Timestamp = 0, lg_AppId = '''', lg_SourceType = '''',
         lg_SourceInstance = ''''\<rparr>)\<rparr>"
  by (simp add: BuildLogMessageMetric_def LogMessage_getters_def buildSplunkMetric_def
      Let_def zero_common_def)

lemma BuildValueMetric_absent:
  "env_ValueMetric event = None \<Longrightarrow>
   BuildValueMetric event =
     \<lparr>Time = nanoSecondsToSeconds (env_Timestamp event), Host = env_Ip event,
      Source = env_Job event,
      Event = Some (ValuePayload
        \<lparr>vl_Common = \<lparr>Deployment = env_Deployment event, Index = env_Index event,
                       EventType = EventType_String (env_EventType event)\<rparr>,
         vl_Name = '''', vl_Value = 0, vl_Unit = ''''\<rparr>)\<rparr>"
  by (simp add: BuildValueMetric_def ValueMetric_getters_def buildSplunkMetric_def
      Let_def zero_common_def)

lemma BuildCounterEventMetric_absent:
  "env_CounterEvent event = None \<Longrightarrow>
   BuildCounterEventMetric event =
     \<lparr>Time = nanoSecondsToSeconds (env_Timestamp event), Host = env_Ip event,
      Source = env_Job event,
      Event = Some (CounterEventPayload
        \<lparr>ct_Common = \<lparr>Deployment = env_Deployment event, Index = env_Index event,
                       EventType = EventType_String (env_EventType event)\<rparr>,
         ct_Name = '''', ct_Delta = 0, ct_Total = 0\<rparr>)\<rparr>"
  by (simp add: BuildCounterEventMetric_def CounterEvent_getters_def buildSplunkMetric_def
      Let_def zero_common_def)

lemma BuildErrorMetric_absent:
  "env_Error event = None \<Longrightarrow>
   BuildErrorMetric event =
     \<lparr>Time = nanoSecondsToSeconds (env_Timestamp event), Host = env_Ip event,
      Source = env_Job event,
      Event = Some (ErrorPayload
        \<lparr>em_Common = \<lparr>Deployment = env_Deployment event, Index = env_Index event,
                       EventType = EventType_String (env_EventType event)\<rparr>,
         em_Source = '''', em_Code = 0, em_Message = ''''\<rparr>)\<rparr>"
  by (simp add: BuildErrorMetric_def Error_getters_def buildSplunkMetric_def
      Let_def zero_common_def)

lemma BuildContainerMetric_absent:
  "env_ContainerMetric event = None \<Longrightarrow>
   BuildContainerMetric event =
     \<lparr>Time = nanoSecondsToSeconds (env_Timestamp event), Host = env_Ip event,
      Source = env_Job event,
      Event = Some (ContainerPayload
        \<lparr>cn_Common = \<lparr>Deployment = env_Deployment event, Index = env_Index event,
                       EventType = EventType_String (env_EventType event)\<rparr>,
         cn_ApplicationId = '''', cn_InstanceIndex = 0, cn_CpuPercentage = 0,
         cn_MemoryBytes = 0, cn_DiskBytes = 0\<rparr>)\<rparr>"
  by (simp add: BuildContainerMetric_def ContainerMetric_getters_def buildSplunkMetric_def
      Let_def zero_common_def)

text \<open>
  C8. An envelope declared \<open>HttpStartStop\<close> that carries no such payload is not skipped:
  handling it appends a record to the batch, and nothing is logged.
\<close>

theorem envelope_without_payload_is_recorded:
  "lacks_payload (sample_envelope Envelope_HttpStartStop) \<and>
   length (batch (handleEvent sample_lib (NewSplunkForwarder accepting_client [Envelope_HttpStartStop])
     (sample_envelope Envelope_HttpStartStop))) = 1 \<and>
   logged (handleEvent sample_lib (NewSplunkForwarder accepting_client [Envelope_HttpStartStop])
     (sample_envelope Envelope_HttpStartStop)) = []"
proof -
  let ?s = "NewSplunkForwarder accepting_client [Envelope_HttpStartStop]"
  let ?e = "sample_envelope Envelope_HttpStartStop"
  have k: "env_EventType ?e = Envelope_HttpStartStop" by (simp add: sample_envelope_def)
  have inc: "map_index (includedEventTypes ?s) (env_EventType ?e)"
    by (simp add: NewSplunkForwarder_selected k)
  have "lacks_payload ?e" by (simp add: lacks_payload_def sample_envelope_def)
  then show ?thesis
    by (simp add: handleEvent_built(1) [OF inc k] NewSplunkForwarder_fields)
qed

text \<open>
  C8, as the code has it. Take a selected envelope whose declared kind is one of the six
  for which a record is built (\<open>HttpStartStop\<close>, \<open>LogMessage\<close>, \<open>ValueMetric\<close>,
  \<open>CounterEvent\<close>, \<open>Error\<close>, \<open>ContainerMetric\<close>) and which lacks the payload of that
  kind. It is handled like any other: exactly one record is appended to the batch, with
  the time, host and source of the envelope, its deployment, index and kind, and the zero
  value in every field of the payload (the empty string, 0, the empty list, and for an
  enumeration the name of the default its getter returns); nothing else in the nozzle
  changes and nothing is logged; and the loop goes on with the following inputs without
  returning.
\<close>

theorem handleEvent_lacking_payload:
  assumes "lacks_payload event"
    and "map_index (includedEventTypes s) (env_EventType event)"
  shows "\<exists>ev. handleEvent lib s event = s\<lparr>batch := batch s @ [ev]\<rparr> \<and>
           Time ev = nanoSecondsToSeconds (env_Timestamp event) \<and>
           Host ev = env_Ip event \<and> Source ev = env_Job event \<and>
           record_eventType ev = Some (EventType_String (env_EventType event)) \<and>
           Run lib s (EventsChannel event # rest) = Run lib (s\<lparr>batch := batch s @ [ev]\<rparr>) rest \<and>
           fst (Run lib s [EventsChannel event]) = None \<and>
           (env_EventType event = Envelope_HttpStartStop \<longrightarrow>
              Event ev =
                Some (HttpStartStopPayload
                  \<lparr>hm_Common = \<lparr>Deployment = env_Deployment event, Index = env_Index event,
                                 EventType = ''HttpStartStop''\<rparr>,
                   hm_StartTimestamp = 0, hm_StopTimestamp = 0, hm_RequestId = '''',
                   hm_PeerType = PeerType_String lib (PeerType_default lib),
                   hm_Method = Method_String lib (Method_default lib),
                   hm_Uri = '''', hm_RemoteAddress = '''', hm_UserAgent = '''',
                   hm_StatusCode = 0, hm_ContentLength = 0, hm_ApplicationId = '''',
                   hm_InstanceIndex = 0, hm_Forwarded = []\<rparr>)) \<and>
           (env_EventType event = Envelope_LogMessage \<longrightarrow>
              Event ev =
                Some (LogMessagePayload
                  \<lparr>lg_Common = \<lparr>Deployment = env_Deployment event, Index = env_Index event,
                                 EventType = ''LogMessage''\<rparr>,
                   lg_Message = '''',
                   lg_MessageType = MessageType_String lib (MessageType_default lib),
                   lg_Timestamp = 0, lg_AppId = '''', lg_SourceType = '''',
                   lg_SourceInstance = ''''\<rparr>)) \<and>
           (env_EventType event = Envelope_ValueMetric \<longrightarrow>
              Event ev =
                Some (ValuePayload
                  \<lparr>vl_Common = \<lparr>Deployment = env_Deployment event, Index = env_Index event,
                                 EventType = ''ValueMetric''\<rparr>,
                   vl_Name = '''', vl_Value = 0, vl_Unit = ''''\<rparr>)) \<and>
           (env_EventType event = Envelope_CounterEvent \<longrightarrow>
              Event ev =
                Some (CounterEventPayload
                  \<lparr>ct_Common = \<lparr>Deployment = env_Deployment event, Index = env_Index event,
                                 EventType = ''CounterEvent''\<rparr>,
                   ct_Name = '''', ct_Delta = 0, ct_Total = 0\<rparr>)) \<and>
           (env_EventType event = Envelope_Error \<longrightarrow>
              Event ev =
                Some (ErrorPayload
                  \<lparr>em_Common = \<lparr>Deployment = env_Deployment event, Index = env_Index event,
                                 EventType = ''Error''\<rparr>,
                   em_Source = '''', em_Code = 0, em_Message = ''''\<rparr>)) \<and>
           (env_EventType event = Envelope_ContainerMetric \<longrightarrow>
              Event ev =
                Some (ContainerPayload
                  \<lparr>cn_Common = \<lparr>Deployment = env_Deployment event, Index = env_Index event,
                                 EventType = ''ContainerMetric''\<rparr>,
                   cn_ApplicationId = '''', cn_InstanceIndex = 0, cn_CpuPercentage = 0,
                   cn_MemoryBytes = 0, cn_DiskBytes = 0\<rparr>))"
proof -
  have run: "Run lib s (EventsChannel event # rest) = Run lib (s\<lparr>batch := batch s @ [r]\<rparr>) rest \<and>
      fst (Run lib s [EventsChannel event]) = None"
    if "handleEvent lib s event = s\<lparr>batch := batch s @ [r]\<rparr>" for r
    using that by simp
  from assms(1) show ?thesis
    unfolding lacks_payload_def
  proof (elim disjE conjE)
    assume k: "env_EventType event = Envelope_HttpStartStop" and n: "env_HttpStartStop event = None"
    note h = handleEvent_built(1) [OF assms(2) k]
    show ?thesis
      by (rule exI [of _ "BuildHttpStartStopMetric lib event"])
        (simp add: h run [OF h] record_eventType_builders, 
          simp add: BuildHttpStartStopMetric_absent [OF n] k EventType_String_named)
  next
    assume k: "env_EventType event = Envelope_LogMessage" and n: "env_LogMessage event = None"
    note h = handleEvent_built(2) [OF assms(2) k]
    show ?thesis
      by (rule exI [of _ "BuildLogMessageMetric lib event"])
        (simp add: h run [OF h] record_eventType_builders,
          simp add: BuildLogMessageMetric_absent [OF n] k EventType_String_named)
  next
    assume k: "env_EventType event = Envelope_ValueMetric" and n: "env_ValueMetric event = None"
    note h = handleEvent_built(3) [OF assms(2) k]
    show ?thesis
      by (rule exI [of _ "BuildValueMetric event"])
        (simp add: h run [OF h] record_eventType_builders,
          simp add: BuildValueMetric_absent [OF n] k EventType_String_named)
  next
    assume k: "env_EventType event = Envelope_CounterEvent" and n: "env_CounterEvent event = None"
    note h = handleEvent_built(4) [OF assms(2) k]
    show ?thesis
      by (rule exI [of _ "BuildCounterEventMetric event"])
        (simp add: h run [OF h] record_eventType_builders,
          simp add: BuildCounterEventMetric_absent [OF n] k EventType_String_named)
  next
    assume k: "env_EventType event = Envelope_Error" and n: "env_Error event = None"
    note h = handleEvent_built(5) [OF assms(2) k]
    show ?thesis
      by (rule exI [of _ "BuildErrorMetric event"])
        (simp add: h run [OF h] record_eventType_builders,
          simp add: BuildErrorMetric_absent [OF n] k EventType_String_named)
  next
    assume k: "env_EventType event = Envelope_ContainerMetric"
      and n: "env_ContainerMetric event = None"
    note h = handleEvent_built(6) [OF assms(2) k]
    show ?thesis
      by (rule exI [of _ "BuildContainerMetric event"])
        (simp add: h run [OF h] record_eventType_builders,
          simp add: BuildContainerMetric_absent [OF n] k EventType_String_named)
  qed
qed

theorem handleEvent_lacking_payload_witness:
  "lacks_payload (sample_envelope Envelope_LogMessage) \<and>
   map_index (includedEventTypes (NewSplunkForwarder accepting_client [Envelope_LogMessage]))
     (env_EventType (sample_envelope Envelope_LogMessage)) \<and>
   (\<exists>ev. batch (handleEvent sample_lib (NewSplunkForwarder accepting_client [Envelope_LogMessage])
            (sample_envelope Envelope_LogMessage)) = [ev] \<and>
         Host ev = ''10.0.0.1'' \<and> Source ev = ''router'' \<and>
         Event ev =
           Some (LogMessagePayload
             \<lparr>lg_Common = \<lparr>Deployment = ''cf'', Index = ''0'', EventType = ''LogMessage''\<rparr>,
              lg_Message = '''', lg_MessageType = ''OUT'', lg_Timestamp = 0, lg_AppId = '''',
              lg_SourceType = '''', lg_SourceInstance = ''''\<rparr>))"
proof -
  let ?s = "NewSplunkForwarder accepting_client [Envelope_LogMessage]"
  let ?e = "sample_envelope Envelope_LogMessage"
  have k: "env_EventType ?e = Envelope_LogMessage" by (simp add: sample_envelope_def)
  have inc: "map_index (includedEventTypes ?s) (env_EventType ?e)"
    by (simp add: NewSplunkForwarder_selected k)
  have l: "lacks_payload ?e" by (simp add: lacks_payload_def sample_envelope_def)
  from handleEvent_lacking_payload [OF l inc, of sample_lib "[]"] k obtain ev where
    "handleEvent sample_lib ?s ?e = ?s\<lparr>batch := batch ?s @ [ev]\<rparr>"
    "Host ev = env_Ip ?e" "Source ev = env_Job ?e"
    "Event ev =
       Some (LogMessagePayload
         \<lparr>lg_Common = \<lparr>Deployment = env_Deployment ?e, Index = env_Index ?e,
                        EventType = ''LogMessage''\<rparr>,
          lg_Message = '''',
          lg_MessageType = MessageType_String sample_lib (MessageType_default sample_lib),
          lg_Timestamp = 0, lg_AppId = '''', lg_SourceType = '''', lg_SourceInstance = ''''\<rparr>)"
    by blast
  then have "batch (handleEvent sample_lib ?s ?e) = [ev] \<and>
      Host ev = ''10.0.0.1'' \<and> Source ev = ''router'' \<and>
      Event ev =
        Some (LogMessagePayload
          \<lparr>lg_Common = \<lparr>Deployment = ''cf'', Index = ''0'', EventType = ''LogMessage''\<rparr>,
           lg_Message = '''', lg_MessageType = ''OUT'', lg_Timestamp = 0, lg_AppId = '''',
           lg_SourceType = '''', lg_SourceInstance = ''''\<rparr>)"
    by (simp add: NewSplunkForwarder_fields sample_envelope_def sample_lib_def)
  with l inc show ?thesis by blast
qed

section \<open>Results: the delivery workers of the event sink\<close>

lemma length_make_writers:
  "length (make_writers config writerConfig i writers) =
     length writers + nat (wrap_int64 (HecWorkers config + 1) - i)"
proof (induction config writerConfig i writers rule: make_writers.induct)
  case (1 config writerConfig i writers)
  show ?case
  proof (cases "i < wrap_int64 (HecWorkers config + 1)")
    case True
    have "nat (wrap_int64 (HecWorkers config + 1) - i) =
        Suc (nat (wrap_int64 (HecWorkers config + 1) - (i + 1)))"
      using True by linarith
    then show ?thesis
      using True "1.IH" [OF True refl] by (subst make_writers.simps) (simp add: Let_def)
  next
    case False
    then show ?thesis by (subst make_writers.simps) simp
  qed
qed

lemma wrap_int64_succ: "0 \<le> h \<Longrightarrow> h < 2 ^ 63 - 1 \<Longrightarrow> wrap_int64 (h + 1) = h + 1"
  unfolding wrap_int64_def by (rule signed_take_bit_int_eq_self) auto

text \<open>
  C9. For a configured number of workers that is not negative, the sink that \<open>EventSink\<close>
  returns has exactly that many delivery workers. \<open>EventSink\<close> makes one writer more than
  that, the one left for the status reporter; the reporter is started on its own, when
  and only when the status interval is positive, and does not change the number of
  delivery workers.
\<close>

theorem EventSink_workers:
  assumes "0 \<le> HecWorkers config"
    and "HecWorkers config < 2 ^ 63 - 1"
    and "EventSink ParseExtraFields config = Inr sink"
  shows "length (workers sink) = nat (HecWorkers config) \<and>
         length (sink_writers sink) = nat (HecWorkers config) + 1 \<and>
         (status_reporter sink \<longleftrightarrow> 0 < StatusMonitorInterval config) \<and>
         (\<exists>sink'. EventSink ParseExtraFields (config\<lparr>StatusMonitorInterval := interval\<rparr>) = Inr sink' \<and>
            workers sink' = workers sink)"
proof -
  obtain fields where p: "ParseExtraFields (ExtraFields config) = Inr fields"
    using assms(3) by (auto simp: EventSink_def Let_def split: sum.splits)
  have mw: "make_writers (config\<lparr>StatusMonitorInterval := interval\<rparr>) wc i ws = make_writers config wc i ws"
    for wc i ws
  proof (induction config wc i ws rule: make_writers.induct)
    case (1 config writerConfig i writers)
    show ?case
      by (subst make_writers.simps, subst (2) make_writers.simps) (simp add: Let_def 1)
  qed
  have "length (workers sink) = nat (HecWorkers config)"
    and "length (sink_writers sink) = nat (HecWorkers config) + 1"
    and "status_reporter sink \<longleftrightarrow> 0 < StatusMonitorInterval config"
    using assms
    by (auto simp: EventSink_def Let_def NewSplunk_def Splunk_Open_def length_make_writers
        wrap_int64_succ nat_add_distrib split: sum.splits if_splits)
  moreover have "\<exists>sink'. EventSink ParseExtraFields (config\<lparr>StatusMonitorInterval := interval\<rparr>) = Inr sink' \<and>
      workers sink' = workers sink"
    using assms(3) p
    by (auto simp: EventSink_def Let_def NewSplunk_def Splunk_Open_def mw split: if_splits)
  ultimately show ?thesis by blast
qed

theorem EventSink_workers_witness:
  "0 \<le> HecWorkers sample_config \<and> HecWorkers sample_config < 2 ^ 63 - 1 \<and>
   (\<exists>sink. EventSink (\<lambda>extra. Inr Map.empty) sample_config = Inr sink \<and>
      length (workers sink) = 8 \<and> length (sink_writers sink) = 9 \<and> \<not> status_reporter sink)"
proof -
  have a: "0 \<le> HecWorkers sample_config" and b: "HecWorkers sample_config < 2 ^ 63 - 1"
    by (simp_all add: sample_config_def)
  obtain sink where s: "EventSink (\<lambda>extra. Inr Map.empty) sample_config = Inr sink"
    by (simp add: EventSink_def Let_def)
  from EventSink_workers [OF a b s] have
    "length (workers sink) = 8 \<and> length (sink_writers sink) = 9 \<and> \<not> status_reporter sink"
    by (simp add: sample_config_def)
  with a b s show ?thesis by blast
qed

section \<open>Results: timestamp conversion\<close>

lemma digit_char_digit: "digit_char d \<in> set ''0123456789''"
proof -
  have "d mod 10 < length ''0123456789''" by simp
  then show ?thesis unfolding digit_char_def by (rule nth_mem)
qed

lemma decimal_digits: "set (decimal n) \<subseteq> set ''0123456789'' \<and> decimal n \<noteq> []"
proof (induction n rule: decimal.induct)
  case (1 n)
  show ?case
  proof (cases "n < 10")
    case True
    then show ?thesis
      using digit_char_digit [of n] by (subst (1 2) decimal.simps) simp
  next
    case False
    then show ?thesis
      using "1.IH" digit_char_digit [of "n mod 10"] by (subst (1 2) decimal.simps) simp
  qed
qed

lemma render_fixed3_shape:
  "\<exists>ip fr. render_fixed3 neg q = (if neg then ''-'' else '''') @ ip @ ''.'' @ fr \<and>
     ip \<noteq> [] \<and> length fr = 3 \<and> set (ip @ fr) \<subseteq> set ''0123456789''"
proof -
  let ?fr = "[digit_char (q mod 1000 div 100), digit_char (q mod 100 div 10), digit_char (q mod 10)]"
  have "set ?fr \<subseteq> set ''0123456789''"
    using digit_char_digit [of "q mod 1000 div 100"] digit_char_digit [of "q mod 100 div 10"]
      digit_char_digit [of "q mod 10"] by simp
  then have "set (decimal (q div 1000) @ ?fr) \<subseteq> set ''0123456789''"
    using decimal_digits [of "q div 1000"] by simp
  moreover have "render_fixed3 neg q = (if neg then ''-'' else '''') @ decimal (q div 1000) @ ''.'' @ ?fr"
    by (simp add: render_fixed3_def)
  moreover have "decimal (q div 1000) \<noteq> []" "length ?fr = 3"
    using decimal_digits [of "q div 1000"] by simp_all
  ultimately show ?thesis by blast
qed

lemma round_half_even_near:
  assumes "0 < b"
  shows "\<bar>real (round_half_even a b) - real a / real b\<bar> \<le> 1 / 2"
proof -
  define q r where "q = a div b" and "r = a mod b"
  have a: "real a = real q * real b + real r"
    unfolding q_def r_def by (metis div_mult_mod_eq of_nat_add of_nat_mult)
  have rb: "r < b" unfolding r_def using assms by simp
  have bpos: "0 < real b" using assms by simp
  have quot: "real a / real b = real q + real r / real b"
    using bpos by (simp add: a field_simps)
  have lo: "real r / real b \<le> 1 / 2" if "2 * r < b"
  proof -
    from that have "real (2 * r) < real b" by (simp only: of_nat_less_iff)
    then show ?thesis using bpos by (simp add: field_simps)
  qed
  have hi: "1 / 2 \<le> real r / real b" if "b \<le> 2 * r"
  proof -
    from that have "real b \<le> real (2 * r)" by (simp only: of_nat_le_iff)
    then show ?thesis using bpos by (simp add: field_simps)
  qed
  have up: "real r / real b \<le> 1"
    using bpos rb by (simp add: field_simps)
  have nonneg: "0 \<le> real r / real b" using bpos by simp
  consider "2 * r < b" | "2 * r > b" | "2 * r = b" by linarith
  then show ?thesis
  proof cases
    case 1
    then have "round_half_even a b = q"
      by (simp add: round_half_even_def Let_def q_def r_def)
    then show ?thesis using lo [OF 1] nonneg by (simp add: quot)
  next
    case 2
    then have "round_half_even a b = q + 1"
      by (simp add: round_half_even_def Let_def q_def r_def)
    moreover have "b \<le> 2 * r" using 2 by simp
    ultimately show ?thesis using hi up by (simp add: quot)
  next
    case 3
    have "real r / real b = 1 / 2"
    proof -
      from 3 have "real (2 * r) = real b" by simp
      then show ?thesis using bpos by (simp add: field_simps)
    qed
    then have h: "real a / real b = real q + 1 / 2" by (simp only: quot)
    from 3 have "round_half_even a b = q \<or> round_half_even a b = q + 1"
      by (simp add: round_half_even_def Let_def q_def r_def)
    then show ?thesis unfolding h by auto
  qed
qed

lemma thousandths_near:
  "\<bar>real (thousandths v) - 1000 * \<bar>fval_real v\<bar>\<bar> \<le> 1 / 2"
proof (cases "0 \<le> expo v")
  case True
  then have "2 powi expo v = (2::real) ^ nat (expo v)"
    by (simp add: power_int_def)
  then have "\<bar>fval_real v\<bar> = real (nat \<bar>mant v\<bar>) * 2 ^ nat (expo v)"
    by (simp add: fval_real_def abs_mult)
  moreover have "thousandths v = nat \<bar>mant v\<bar> * 2 ^ nat (expo v) * 1000"
    using True by (simp add: thousandths_def)
  ultimately show ?thesis by simp
next
  case False
  then have "2 powi expo v = inverse ((2::real) ^ nat (- expo v))"
    by (simp add: power_int_def power_one_over inverse_eq_divide)
  then have "\<bar>fval_real v\<bar> = real (nat \<bar>mant v\<bar>) / 2 ^ nat (- expo v)"
    by (simp add: fval_real_def abs_mult divide_inverse)
  then have "1000 * \<bar>fval_real v\<bar> = real (nat \<bar>mant v\<bar> * 1000) / real (2 ^ nat (- expo v))"
    by simp
  moreover have "thousandths v = round_half_even (nat \<bar>mant v\<bar> * 1000) (2 ^ nat (- expo v))"
    using False by (simp add: thousandths_def)
  moreover have "\<bar>real (round_half_even (nat \<bar>mant v\<bar> * 1000) (2 ^ nat (- expo v)))
      - real (nat \<bar>mant v\<bar> * 1000) / real (2 ^ nat (- expo v))\<bar> \<le> 1 / 2"
    by (rule round_half_even_near) simp
  ultimately show ?thesis by simp
qed


lemma bit_length_samples:
  "bit_length 1999900000 = 31"
  "bit_length 9670922986589188148300000 = 83"
  "bit_length 1500000000000000000 = 61"
  "bit_length 28334198897217873046875000000000 = 105"
  by (simp_all add: bit_length.simps)

lemma nanoSecondsToSeconds_1999900000: "nanoSecondsToSeconds 1999900000 = ''2.000''"
proof -
  have f1: "float64_of_int64 1999900000 = Fval 1999900000 0"
    by (simp add: float64_of_int64_def round_float64_def bit_length_samples round_half_even_def)
  have f2: "float64_mul (Fval 1999900000 0) math_Pow_1000_neg3 = Fval 9006748894778256 (- 52)"
    by (simp add: float64_mul_def math_Pow_1000_neg3_def round_float64_def bit_length_samples
        round_half_even_def)
  have f3: "thousandths (Fval 9006748894778256 (- 52)) = 2000"
    by (simp add: thousandths_def round_half_even_def)
  have f4: "render_fixed3 False 2000 = ''2.000''"
    by (simp add: render_fixed3_def decimal.simps digit_char_def)
  show ?thesis
    by (simp add: nanoSecondsToSeconds_def f1 f2 Sprintf_3f_def f3 f4)
qed

lemma nanoSecondsToSeconds_example:
  "nanoSecondsToSeconds 1500000000000000000 = ''1500000000.000''"
proof -
  have f1: "float64_of_int64 1500000000000000000 = Fval 5859375000000000 8"
    by (simp add: float64_of_int64_def round_float64_def bit_length_samples round_half_even_def)
  have f2: "float64_mul (Fval 5859375000000000 8) math_Pow_1000_neg3 = Fval 6291456000000000 (- 22)"
    by (simp add: float64_mul_def math_Pow_1000_neg3_def round_float64_def bit_length_samples
        round_half_even_def)
  have f3: "thousandths (Fval 6291456000000000 (- 22)) = 1500000000000"
    by (simp add: thousandths_def round_half_even_def)
  have f4: "render_fixed3 False 1500000000000 = ''1500000000.000''"
    by (simp add: render_fixed3_def decimal.simps digit_char_def)
  show ?thesis
    by (simp add: nanoSecondsToSeconds_def f1 f2 Sprintf_3f_def f3 f4)
qed

text \<open>
  C3. The conversion rounds, it does not truncate: 1999900000 ns, which is 1.9999 s,
  is printed as \<open>"2.000"\<close>, where cutting the digits off gives \<open>"1.999"\<close>.
\<close>

theorem nanoSecondsToSeconds_not_truncated:
  "nanoSecondsToSeconds 1999900000 = ''2.000'' \<and> truncated_seconds 1999900000 = ''1.999'' \<and>
   nanoSecondsToSeconds 1999900000 \<noteq> truncated_seconds 1999900000"
proof -
  have "truncated_seconds 1999900000 = ''1.999''"
    by (simp add: truncated_seconds_def render_fixed3_def decimal.simps digit_char_def)
  then show ?thesis by (simp add: nanoSecondsToSeconds_1999900000)
qed

lemma bit_length_bounds: "0 < a \<Longrightarrow> 2 ^ (bit_length a - 1) \<le> a \<and> a < 2 ^ bit_length a"
proof (induction a rule: bit_length.induct)
  case (1 n)
  show ?case
  proof (cases "n div 2 = 0")
    case True
    with 1(2) have "n = 1" by (simp add: div_eq_0_iff) 
    then show ?thesis by (simp add: bit_length.simps)
  next
    case False
    then have pos: "0 < n div 2" by simp
    have n0: "n \<noteq> 0" using 1(2) by simp
    from "1.IH" [OF n0 pos]
    have lo: "2 ^ (bit_length (n div 2) - 1) \<le> n div 2" and hi: "n div 2 < 2 ^ bit_length (n div 2)"
      by simp_all
    have bl: "bit_length n = Suc (bit_length (n div 2))"
      using n0 by (subst bit_length.simps) simp
    have blpos: "0 < bit_length (n div 2)"
      using pos by (subst bit_length.simps) simp
    then have "(2::nat) ^ bit_length (n div 2) = 2 * 2 ^ (bit_length (n div 2) - 1)"
      by (cases "bit_length (n div 2)") simp_all
    with lo have "2 ^ bit_length (n div 2) \<le> n" by linarith
    moreover from hi have "n < 2 * 2 ^ bit_length (n div 2)" by linarith
    ultimately show ?thesis by (simp add: bl)
  qed
qed

lemma round_half_even_one: "round_half_even a (Suc 0) = a"
  by (simp add: round_half_even_def)

lemma round_float64_cases:
  obtains (exact) "round_float64 neg a e = Fval (if neg then - int a else int a) e"
  | (rounded) k m where "0 < k" "round_float64 neg a e = Fval (if neg then - int m else int m) (e + int k)"
      "\<bar>real m * 2 ^ k - real a\<bar> \<le> real a / 2 ^ 53" "0 < m"
proof (cases "bit_length a - 53 = 0")
  case True
  then have "round_float64 neg a e = Fval (if neg then - int a else int a) e"
    by (simp add: round_float64_def Let_def round_half_even_one)
  then show ?thesis by (rule exact)
next
  case False
  define k where "k = bit_length a - 53"
  define m where "m = round_half_even a (2 ^ k)"
  have kpos: "0 < k" using False by (simp add: k_def)
  then have bl: "bit_length a = k + 53" by (simp add: k_def)
  then have apos: "0 < a" by (cases "a = 0") (simp_all add: bit_length.simps)
  from bit_length_bounds [OF apos] have "2 ^ (k + 52) \<le> a" by (simp add: bl add.commute)
  then have "real (2 ^ (k + 52)) \<le> real a" by (simp only: of_nat_le_iff)
  then have abig: "2 ^ k * 2 ^ 52 \<le> real a" by (simp add: power_add)
  have "\<bar>real m - real a / real (2 ^ k)\<bar> \<le> 1 / 2"
    unfolding m_def by (rule round_half_even_near) simp
  then have "\<bar>real m - real a / 2 ^ k\<bar> * 2 ^ k \<le> 1 / 2 * 2 ^ k"
    by (intro mult_right_mono) simp_all
  moreover have "\<bar>real m - real a / 2 ^ k\<bar> * 2 ^ k = \<bar>real m * 2 ^ k - real a\<bar>"
  proof -
    have "\<bar>real m - real a / 2 ^ k\<bar> * 2 ^ k = \<bar>(real m - real a / 2 ^ k) * 2 ^ k\<bar>"
      by (simp add: abs_mult)
    also have "(real m - real a / 2 ^ k) * 2 ^ k = real m * 2 ^ k - real a"
      by (simp add: field_simps)
    finally show ?thesis .
  qed
  ultimately have near: "\<bar>real m * 2 ^ k - real a\<bar> \<le> 2 ^ k / 2" by simp
  have "(2::real) ^ k / 2 = 2 ^ k * 2 ^ 52 / 2 ^ 53" by simp
  also have "\<dots> \<le> real a / 2 ^ 53" using abig by (intro divide_right_mono) simp_all
  finally have err: "\<bar>real m * 2 ^ k - real a\<bar> \<le> real a / 2 ^ 53" using near by linarith
  have mpos: "0 < m"
  proof (rule ccontr)
    assume "\<not> 0 < m"
    then have "m = 0" by simp
    with near have "real a \<le> 2 ^ k / 2" by simp
    moreover have "(2::real) ^ k / 2 < 2 ^ k * 2 ^ 52" by simp
    ultimately show False using abig by linarith
  qed
  have "round_float64 neg a e = Fval (if neg then - int m else int m) (e + int k)"
    by (simp add: round_float64_def Let_def k_def m_def)
  from kpos this err mpos show ?thesis by (rule rounded)
qed


lemma round_float64_error:
  "\<bar>\<bar>fval_real (round_float64 neg a e)\<bar> - real a * 2 powi e\<bar> \<le> real a * 2 powi e / 2 ^ 53"
proof (cases neg a e rule: round_float64_cases)
  case exact
  have "\<bar>fval_real (round_float64 neg a e)\<bar> = real a * 2 powi e"
    by (simp add: exact fval_real_def abs_mult)
  then show ?thesis by simp
next
  case (rounded k m)
  have p: "(2::real) powi (e + int k) = 2 powi e * 2 ^ k"
    by (simp add: power_int_add)
  have "\<bar>fval_real (round_float64 neg a e)\<bar> = real m * 2 ^ k * 2 powi e"
    by (simp add: rounded(2) fval_real_def abs_mult p)
  then have "\<bar>\<bar>fval_real (round_float64 neg a e)\<bar> - real a * 2 powi e\<bar>
      = \<bar>(real m * 2 ^ k - real a) * 2 powi e\<bar>"
    by (simp add: algebra_simps)
  also have "\<dots> = \<bar>real m * 2 ^ k - real a\<bar> * 2 powi e"
    by (simp add: abs_mult)
  also have "\<dots> \<le> real a / 2 ^ 53 * 2 powi e"
    using rounded(3) by (intro mult_right_mono) simp_all
  finally show ?thesis by simp
qed

lemma round_float64_sign: "mant (round_float64 neg a e) < 0 \<longleftrightarrow> neg \<and> 0 < a"
proof (cases neg a e rule: round_float64_cases)
  case exact
  then show ?thesis by simp
next
  case (rounded k m)
  have "0 < a"
  proof (rule ccontr)
    assume "\<not> 0 < a"
    then have "a = 0" by simp
    with rounded(3) have "real m * 2 ^ k \<le> 0" by simp
    moreover have "0 < real m * 2 ^ k" using rounded(4) by simp
    ultimately show False by linarith
  qed
  with rounded show ?thesis by simp
qed

lemma abs_fval_real: "\<bar>fval_real v\<bar> = real (nat \<bar>mant v\<bar>) * 2 powi expo v"
  by (simp add: fval_real_def abs_mult)

lemma rel_chain:
  fixes A X C P c u :: real
  assumes A: "0 \<le> A" and c: "0 \<le> c" and u0: "0 \<le> u" and u1: "u \<le> 1 / 4"
    and X: "\<bar>X - A\<bar> \<le> A * u"
    and C: "\<bar>C - c\<bar> \<le> c * u"
    and P: "\<bar>P - X * C\<bar> \<le> X * C * u"
  shows "\<bar>P - A * c\<bar> \<le> 4 * u * (A * c)"
proof -
  have Xhi: "X \<le> A * (1 + u)" and Xlo: "A * (1 - u) \<le> X"
    using X by (simp_all add: algebra_simps abs_le_iff)
  have Chi: "C \<le> c * (1 + u)" and Clo: "c * (1 - u) \<le> C"
    using C by (simp_all add: algebra_simps abs_le_iff)
  have um: "0 \<le> 1 - u" and up: "0 \<le> 1 + u" using u0 u1 by simp_all
  have X0: "0 \<le> X" using Xlo A um by (meson mult_nonneg_nonneg order_trans)
  have C0: "0 \<le> C" using Clo c um by (meson mult_nonneg_nonneg order_trans)
  have XChi: "X * C \<le> (A * (1 + u)) * (c * (1 + u))"
    using Xhi Chi C0 A up by (intro mult_mono) simp_all
  have XClo: "(A * (1 - u)) * (c * (1 - u)) \<le> X * C"
    using Xlo Clo X0 c um by (intro mult_mono) simp_all
  have "P \<le> X * C * (1 + u)" using P by (simp add: algebra_simps abs_le_iff)
  also have "\<dots> \<le> (A * (1 + u)) * (c * (1 + u)) * (1 + u)"
    using XChi up by (intro mult_right_mono)
  also have "\<dots> = (A * c) * ((1 + u) * (1 + u) * (1 + u))" by (simp add: algebra_simps)
  finally have Phi: "P \<le> (A * c) * ((1 + u) * (1 + u) * (1 + u))" .
  have "(A * (1 - u)) * (c * (1 - u)) * (1 - u) \<le> X * C * (1 - u)"
    using XClo um by (intro mult_right_mono)
  also have "\<dots> \<le> P" using P by (simp add: algebra_simps abs_le_iff)
  finally have Plo: "(A * c) * ((1 - u) * (1 - u) * (1 - u)) \<le> P" by (simp add: algebra_simps)
  have uu: "u * u \<le> u * (1 / 4)" using u0 u1 by (intro mult_left_mono)
  have "u * (u * u) \<le> u * (u * (1 / 4))" using uu u0 by (rule mult_left_mono)
  then have uuu: "u * u * u \<le> u / 16" using uu u0 by (simp add: algebra_simps)
  have uuu0: "0 \<le> u * u * u" and uu0: "0 \<le> u * u" using u0 by simp_all
  have cube_hi: "(1 + u) * (1 + u) * (1 + u) \<le> 1 + 4 * u"
  proof -
    have "(1 + u) * (1 + u) * (1 + u) = 1 + 3 * u + 3 * (u * u) + u * u * u"
      by (simp add: algebra_simps)
    then show ?thesis using uu uuu u0 by linarith
  qed
  have cube_lo: "1 - 4 * u \<le> (1 - u) * (1 - u) * (1 - u)"
  proof -
    have "(1 - u) * (1 - u) * (1 - u) = 1 - 3 * u + 3 * (u * u) - u * u * u"
      by (simp add: algebra_simps)
    then show ?thesis using uu uuu uu0 u0 by linarith
  qed
  have Ac: "0 \<le> A * c" using A c by simp
  have "P \<le> (A * c) * (1 + 4 * u)"
    using Phi mult_left_mono [OF cube_hi Ac] by linarith
  moreover have "(A * c) * (1 - 4 * u) \<le> P"
    using Plo mult_left_mono [OF cube_lo Ac] by linarith
  ultimately show ?thesis by (simp add: algebra_simps abs_le_iff)
qed

lemma math_Pow_1000_neg3_error:
  "\<bar>\<bar>fval_real math_Pow_1000_neg3\<bar> - 1 / 10 ^ 9\<bar> \<le> 1 / 10 ^ 9 * (1 / 2 ^ 53)"
proof -
  have "(2::real) powi (- 82) = 1 / 2 ^ 82"
    by (simp add: power_int_minus inverse_eq_divide)
  then have "fval_real math_Pow_1000_neg3 = 4835703278458517 / 2 ^ 82"
    by (simp add: fval_real_def math_Pow_1000_neg3_def)
  then show ?thesis by simp
qed

lemma float64_mul_exact:
  "real (nat (\<bar>mant x\<bar> * \<bar>mant y\<bar>)) * 2 powi (expo x + expo y) = \<bar>fval_real x\<bar> * \<bar>fval_real y\<bar>"
proof -
  have "real (nat (\<bar>mant x\<bar> * \<bar>mant y\<bar>)) = real (nat \<bar>mant x\<bar>) * real (nat \<bar>mant y\<bar>)"
    by (simp add: nat_mult_distrib)
  then show ?thesis by (simp add: abs_fval_real power_int_add)
qed

lemma seconds_error:
  fixes n :: int64
  defines "A \<equiv> real (nat \<bar>sint n\<bar>)"
  defines "p \<equiv> float64_mul (float64_of_int64 n) math_Pow_1000_neg3"
  shows "\<bar>\<bar>fval_real p\<bar> - A * (1 / 10 ^ 9)\<bar> \<le> 4 * (1 / 2 ^ 53) * (A * (1 / 10 ^ 9))"
proof (rule rel_chain)
  show "0 \<le> A" by (simp add: A_def)
  show "(0::real) \<le> 1 / 10 ^ 9" by simp
  show "(0::real) \<le> 1 / 2 ^ 53" by simp
  show "(1::real) / 2 ^ 53 \<le> 1 / 4" by simp
  show "\<bar>\<bar>fval_real (float64_of_int64 n)\<bar> - A\<bar> \<le> A * (1 / 2 ^ 53)"
    using round_float64_error [of "sint n < 0" "nat \<bar>sint n\<bar>" 0]
    by (simp add: float64_of_int64_def A_def)
  show "\<bar>\<bar>fval_real math_Pow_1000_neg3\<bar> - 1 / 10 ^ 9\<bar> \<le> 1 / 10 ^ 9 * (1 / 2 ^ 53)"
    by (rule math_Pow_1000_neg3_error)
  show "\<bar>\<bar>fval_real p\<bar> - \<bar>fval_real (float64_of_int64 n)\<bar> * \<bar>fval_real math_Pow_1000_neg3\<bar>\<bar>
      \<le> \<bar>fval_real (float64_of_int64 n)\<bar> * \<bar>fval_real math_Pow_1000_neg3\<bar> * (1 / 2 ^ 53)"
    using round_float64_error [of "(mant (float64_of_int64 n) < 0) \<noteq> (mant math_Pow_1000_neg3 < 0)"
        "nat (\<bar>mant (float64_of_int64 n)\<bar> * \<bar>mant math_Pow_1000_neg3\<bar>)"
        "expo (float64_of_int64 n) + expo math_Pow_1000_neg3"]
    unfolding float64_mul_exact p_def float64_mul_def by simp
qed

lemma seconds_sign:
  "mant (float64_mul (float64_of_int64 n) math_Pow_1000_neg3) < 0 \<longleftrightarrow> sint n < 0"
proof -
  have x: "mant (float64_of_int64 n) < 0 \<longleftrightarrow> sint n < 0"
    by (auto simp: float64_of_int64_def round_float64_sign)
  have c: "mant math_Pow_1000_neg3 = 4835703278458517" by (simp add: math_Pow_1000_neg3_def)
  show ?thesis
    unfolding float64_mul_def round_float64_sign c x [symmetric]
    by (auto simp: zero_less_mult_iff)
qed

lemma abs_sint_bound: "\<bar>sint (n::int64)\<bar> \<le> 2 ^ 63"
  using sint_ge [of n] sint_lt [of n] by simp

lemma thousandths_accuracy:
  fixes n :: int64
  shows "\<bar>real (thousandths (float64_mul (float64_of_int64 n) math_Pow_1000_neg3))
           - \<bar>real_of_int (sint n)\<bar> / 10 ^ 6\<bar> \<le> 1 / 2 + 1 / 200"
proof -
  define A where "A = real (nat \<bar>sint n\<bar>)"
  define p where "p = float64_mul (float64_of_int64 n) math_Pow_1000_neg3"
  have A: "A = \<bar>real_of_int (sint n)\<bar>" by (simp add: A_def)
  have "real_of_int \<bar>sint n\<bar> \<le> real_of_int (2 ^ 63)"
    using abs_sint_bound [of n] by (simp only: of_int_le_iff)
  then have Ab: "A \<le> 2 ^ 63" and A0: "0 \<le> A" by (simp_all add: A)
  have e: "\<bar>\<bar>fval_real p\<bar> - A * (1 / 10 ^ 9)\<bar> \<le> 4 * (1 / 2 ^ 53) * (A * (1 / 10 ^ 9))"
    unfolding A_def p_def by (rule seconds_error)
  have "4 * (1 / 2 ^ 53) * (A * (1 / 10 ^ 9)) \<le> 4 * (1 / 2 ^ 53) * (2 ^ 63 * (1 / 10 ^ 9))"
    using Ab by (intro mult_left_mono mult_right_mono) simp_all
  also have "\<dots> \<le> 1 / 200000" by simp
  finally have "4 * (1 / 2 ^ 53) * (A * (1 / 10 ^ 9)) \<le> 1 / 200000" .
  define d where "d = \<bar>\<bar>fval_real p\<bar> - A * (1 / 10 ^ 9)\<bar>"
  have d: "d \<le> 1 / 200000"
    unfolding d_def using e \<open>4 * (1 / 2 ^ 53) * (A * (1 / 10 ^ 9)) \<le> 1 / 200000\<close> by (rule order_trans)
  have "1000 * \<bar>fval_real p\<bar> - A / 10 ^ 6 = 1000 * (\<bar>fval_real p\<bar> - A * (1 / 10 ^ 9))"
    by simp
  then have "\<bar>1000 * \<bar>fval_real p\<bar> - A / 10 ^ 6\<bar> = 1000 * d"
    unfolding d_def by (simp only: abs_mult abs_numeral)
  with d have "\<bar>1000 * \<bar>fval_real p\<bar> - A / 10 ^ 6\<bar> \<le> 1 / 200" by simp
  moreover have "\<bar>real (thousandths p) - 1000 * \<bar>fval_real p\<bar>\<bar> \<le> 1 / 2"
    by (rule thousandths_near)
  ultimately have "\<bar>real (thousandths p) - A / 10 ^ 6\<bar> \<le> 1 / 2 + 1 / 200" by linarith
  then show ?thesis unfolding p_def A .
qed

text \<open>
  C3, as the code has it. For every \<open>int64\<close> count of nanoseconds the result is a sign
  (for a negative count), the decimal digits of the integer part, a point and exactly
  three digits; the number printed is the \<open>float64\<close> product of the count and
  \<open>10 ^ -9\<close> rounded to the nearest thousandth, so it differs from the exact number of
  seconds by at most 0.000505, and it is not the truncation. 1500000000000000000 ns gives
  \<open>"1500000000.000"\<close>.
\<close>

theorem nanoSecondsToSeconds_rounds:
  "\<exists>q ip fr.
      q = thousandths (float64_mul (float64_of_int64 n) math_Pow_1000_neg3) \<and>
      nanoSecondsToSeconds n = render_fixed3 (sint n < 0) q \<and>
      nanoSecondsToSeconds n = (if sint n < 0 then ''-'' else '''') @ ip @ ''.'' @ fr \<and>
      ip \<noteq> [] \<and> length fr = 3 \<and> set (ip @ fr) \<subseteq> set ''0123456789'' \<and>
      \<bar>real q - 1000 * \<bar>fval_real (float64_mul (float64_of_int64 n) math_Pow_1000_neg3)\<bar>\<bar> \<le> 1 / 2 \<and>
      \<bar>real q - \<bar>real_of_int (sint n)\<bar> / 10 ^ 6\<bar> \<le> 1 / 2 + 1 / 200 \<and>
      nanoSecondsToSeconds 1500000000000000000 = ''1500000000.000''"
proof -
  define q where "q = thousandths (float64_mul (float64_of_int64 n) math_Pow_1000_neg3)"
  have r: "nanoSecondsToSeconds n = render_fixed3 (sint n < 0) q"
    by (simp add: nanoSecondsToSeconds_def Sprintf_3f_def seconds_sign q_def)
  from render_fixed3_shape [of "sint n < 0" q] obtain ip fr where s:
    "render_fixed3 (sint n < 0) q = (if sint n < 0 then ''-'' else '''') @ ip @ ''.'' @ fr"
    "ip \<noteq> []" "length fr = 3" "set (ip @ fr) \<subseteq> set ''0123456789''"
    by blast
  have n1: "\<bar>real q - 1000 * \<bar>fval_real (float64_mul (float64_of_int64 n) math_Pow_1000_neg3)\<bar>\<bar> \<le> 1 / 2"
    unfolding q_def by (rule thousandths_near)
  have n2: "\<bar>real q - \<bar>real_of_int (sint n)\<bar> / 10 ^ 6\<bar> \<le> 1 / 2 + 1 / 200"
    unfolding q_def by (rule thousandths_accuracy)
  from q_def r s(1) [folded r] s(2-4) n1 n2 nanoSecondsToSeconds_example
  show ?thesis by blast
qed

theorem nanoSecondsToSeconds_rounds_witness:
  "nanoSecondsToSeconds 1999900000 = ''2.000'' \<and>
   \<bar>real (thousandths (float64_mul (float64_of_int64 1999900000) math_Pow_1000_neg3))
      - \<bar>real_of_int (sint (1999900000 :: int64))\<bar> / 10 ^ 6\<bar> \<le> 1 / 2 + 1 / 200"
proof -
  from nanoSecondsToSeconds_rounds [of 1999900000]
  have "\<bar>real (thousandths (float64_mul (float64_of_int64 1999900000) math_Pow_1000_neg3))
      - \<bar>real_of_int (sint (1999900000 :: int64))\<bar> / 10 ^ 6\<bar> \<le> 1 / 2 + 1 / 200"
    by blast
  then show ?thesis using nanoSecondsToSeconds_1999900000 by blast
qed

end
